theory Spec2Isabelle
  imports Complex_Main
begin

section \<open>Scalars, matrices and JSON values\<close>

text \<open>
  A finite C++ \<open>double\<close> is modelled by the real number it holds, and the result of
  an operation by a \<open>double\<close> below: a finite value, an infinity or not-a-number.
  Where a result decides a branch (in \<open>State::load_scene\<close>), each operation on
  doubles is the exact operation on the reals followed by the rounding to double, which
  is an argument \<open>rd\<close> of the model: what is proved holds for every rounding.
  Elsewhere rounding is not modelled.
\<close>

datatype double = Finite real | PosInf | NegInf | NaN

text \<open>
  \<open>a / b\<close> on two finite doubles: the rounded quotient, and the IEEE results for the
  divisor zero (which is \<open>+0.0\<close> where the model divides).
\<close>

definition double_div :: "(real \<Rightarrow> double) \<Rightarrow> real \<Rightarrow> real \<Rightarrow> double" where
  "double_div rd a b =
     (if b \<noteq> 0 then rd (a / b)
      else if 0 < a then PosInf
      else if a < 0 then NegInf
      else NaN)"

text \<open>\<open>a < b\<close> on doubles: false whenever an operand is NaN.\<close>

fun double_less :: "double \<Rightarrow> double \<Rightarrow> bool" where
  "double_less NaN _ = False"
| "double_less _ NaN = False"
| "double_less (Finite a) (Finite b) = (a < b)"
| "double_less (Finite a) PosInf = True"
| "double_less (Finite a) NegInf = False"
| "double_less PosInf _ = False"
| "double_less NegInf NegInf = False"
| "double_less NegInf _ = True"

text \<open>\<open>std::min(a, b)\<close> is \<open>(b < a) ? b : a\<close>.\<close>

definition std_min :: "double \<Rightarrow> double \<Rightarrow> double" where
  "std_min a b = (if double_less b a then b else a)"

text \<open>
  A dynamically sized Eigen matrix: its two dimensions and its coefficients, row by
  row. A matrix with no rows still has a number of columns.
\<close>

record 'a matrix =
  nrows :: nat
  ncols :: nat
  coeffs :: "'a list list"

definition wf_matrix :: "'a matrix \<Rightarrow> bool" where
  "wf_matrix m =
     (length (coeffs m) = nrows m \<and> list_all (\<lambda>r. length r = ncols m) (coeffs m))"

definition coeff :: "'a matrix \<Rightarrow> nat \<Rightarrow> nat \<Rightarrow> 'a" where
  "coeff m i j = coeffs m ! i ! j"

text \<open>\<open>m.resize(r, c); m.setZero()\<close>.\<close>

definition Zero_matrix :: "nat \<Rightarrow> nat \<Rightarrow> real matrix" where
  "Zero_matrix r c = \<lparr>nrows = r, ncols = c, coeffs = replicate r (replicate c 0)\<rparr>"

text \<open>A JSON value of nlohmann::json, with numbers of the scalar type \<open>'a\<close>.\<close>

datatype 'a json =
    JNull
  | JBool bool
  | JNumber 'a
  | JString string
  | JArray "'a json list"
  | JObject "(string \<times> 'a json) list"

datatype error =
    TypeError
  | AssertionFailed
  | IndexOutOfRange
  | EmptyMatrix
  | NonFinite
  | NotImplementedError
  | ReadError

section \<open>The multiprecision constraint evaluator\<close>

text \<open>\<open>Multiprecision(value, precision)\<close>: a value and its precision in bits.\<close>

datatype Multiprecision = Multiprecision double nat

text \<open>
  \<open>DistanceBarrierRBProblem::eval_mp_g\<close>: the argument is unnamed in the source and
  every line that read it is commented out.
\<close>

definition eval_mp_g :: "real list \<Rightarrow> Multiprecision list" where
  "eval_mp_g sigma = [Multiprecision PosInf 256]"

section \<open>The scene state\<close>

text \<open>A row of an \<open>Eigen::MatrixX2d\<close>.\<close>

type_synonym vec2 = "real \<times> real"

text \<open>
  Modelled from the spec: the constant \<open>kDIM\<close>, which is declared outside the
  sources. The scene of \<open>State\<close> is two-dimensional (section 3, and the rows that
  \<open>state.cpp\<close> assigns are \<open>RowVector2d\<close>).
\<close>

definition kDIM :: nat where
  "kDIM = 2"

text \<open>
  Modelled from the spec: the impact records, which are declared outside the sources.
  Section 3: an edge-vertex impact is \<open>{time, edge_index, vertex_index, alpha}\<close> and
  an edge-edge impact \<open>{time, edge_a, alpha_a, edge_b, alpha_b}\<close>. The comparison by
  time is a template over the impact type, so the time is the field of a common parent
  record.
\<close>

record Impact =
  time :: real

record EdgeVertexImpact = Impact +
  edge_index :: nat
  alpha :: real
  vertex_index :: nat

record EdgeEdgeImpact = Impact +
  edge_a :: nat
  alpha_a :: real
  edge_b :: nat
  alpha_b :: real

text \<open>
  The members of \<open>ccd::State\<close> that \<open>state.cpp\<close> reads or writes. The member \<open>time\<close>
  is \<open>scene_time\<close> here, the impacts having a field of that name.
\<close>

record State =
  vertices :: "vec2 list"
  displacements :: "vec2 list"
  edges :: "(int \<times> int) list"
  opt_displacements :: "vec2 list"
  canvas_width :: real
  canvas_height :: real
  current_ev_impact :: int
  current_edge :: int
  min_edge_width :: real
  scene_time :: real
  opt_time :: real
  selected_displacements :: "int list"
  selected_points :: "int list"
  volumes :: "real list"
  edge_impact_map :: "int list"
  volume_grad :: "real matrix"
  ev_impacts :: "EdgeVertexImpact list"
  ee_impacts :: "EdgeEdgeImpact list"
  num_pruned_impacts :: int

text \<open>
  \<open>State::State()\<close>: five members are initialised, the matrices and vectors are
  default constructed (empty), and the remaining scalars are indeterminate: they are
  the arguments.
\<close>

definition new_State :: "real \<Rightarrow> real \<Rightarrow> int \<Rightarrow> State" where
  "new_State t ot np =
     \<lparr>vertices = [], displacements = [], edges = [], opt_displacements = [],
      canvas_width = 10, canvas_height = 10,
      current_ev_impact = - 1, current_edge = - 1, min_edge_width = 0,
      scene_time = t, opt_time = ot,
      selected_displacements = [], selected_points = [],
      volumes = [], edge_impact_map = [],
      volume_grad = \<lparr>nrows = 0, ncols = 0, coeffs = []\<rparr>,
      ev_impacts = [], ee_impacts = [], num_pruned_impacts = np\<rparr>"

text \<open>
  \<open>State::reset_impacts\<close>. \<open>vertices.size()\<close> is the number of coefficients of the
  vertex matrix: its rows times its \<open>kDIM\<close> columns.
\<close>

definition reset_impacts :: "State \<Rightarrow> State" where
  "reset_impacts s =
     s\<lparr>volumes := replicate (length (edges s)) 0,
       edge_impact_map := replicate (length (edges s)) (- 1),
       volume_grad := Zero_matrix (length (vertices s) * kDIM) (length (edges s)),
       ev_impacts := [],
       ee_impacts := []\<rparr>"

text \<open>\<open>State::reset_scene\<close>.\<close>

definition reset_scene :: "State \<Rightarrow> State" where
  "reset_scene s =
     (let s1 = reset_impacts s
      in s1\<lparr>current_edge := - 1,
            current_ev_impact := - 1,
            scene_time := 0,
            opt_time := 0,
            selected_displacements := [],
            selected_points := [],
            opt_displacements := replicate (length (displacements s1)) (0, 0)\<rparr>)"

text \<open>
  \<open>conservativeResize\<close> keeps the leading rows and leaves new rows uninitialised; the
  content of a new row is the argument \<open>u\<close>.
\<close>

definition conservativeResize :: "nat \<Rightarrow> 'a \<Rightarrow> 'a list \<Rightarrow> 'a list" where
  "conservativeResize n u xs = take n xs @ replicate (n - length xs) u"

text \<open>\<open>State::add_vertex\<close>; \<open>u\<close> is the content of uninitialised memory.\<close>

definition add_vertex :: "real \<Rightarrow> vec2 \<Rightarrow> State \<Rightarrow> State" where
  "add_vertex u position s =
     (let lastid = length (vertices s);
          s1 = s\<lparr>vertices := (conservativeResize (lastid + 1) (u, u) (vertices s))
                              [lastid := position]\<rparr>;
          s2 = s1\<lparr>displacements :=
                     (conservativeResize (lastid + 1) (u, u) (displacements s1))
                       [lastid := (0, - (1 / 10))]\<rparr>;
          s3 = s2\<lparr>opt_displacements := replicate (lastid + 1) (0, 0)\<rparr>
      in reset_impacts s3)"

text \<open>
  \<open>State::add_edges\<close>; the argument is an \<open>Eigen::MatrixX2i\<close>, so the assertion on
  its number of columns holds by its type.
\<close>

definition add_edges :: "real \<Rightarrow> int \<Rightarrow> (int \<times> int) list \<Rightarrow> State \<Rightarrow> State" where
  "add_edges u ui new_edges s =
     (let lastid = length (edges s);
          n = lastid + length new_edges;
          s1 = s\<lparr>edges := conservativeResize lastid (ui, ui) (edges s) @ new_edges\<rparr>;
          s2 = s1\<lparr>edge_impact_map := conservativeResize n ui (edge_impact_map s1)\<rparr>;
          s3 = s2\<lparr>volumes := conservativeResize n u (volumes s2)\<rparr>
      in reset_impacts s3)"

text \<open>
  \<open>vertices.row(vertex_idx)\<close> with an index outside the matrix fails Eigen's range
  assertion; the model returns the error.
\<close>

definition row_index :: "int \<Rightarrow> 'a list \<Rightarrow> error + nat" where
  "row_index idx xs =
     (if 0 \<le> idx \<and> nat idx < length xs then Inr (nat idx) else Inl IndexOutOfRange)"

definition vadd :: "vec2 \<Rightarrow> vec2 \<Rightarrow> vec2" where
  "vadd a b = (fst a + fst b, snd a + snd b)"

text \<open>\<open>State::set_vertex_position\<close>, \<open>State::move_vertex\<close>, \<open>State::move_displacement\<close>.\<close>

definition set_vertex_position :: "int \<Rightarrow> vec2 \<Rightarrow> State \<Rightarrow> error + State" where
  "set_vertex_position vertex_idx position s =
     (case row_index vertex_idx (vertices s) of
        Inl e \<Rightarrow> Inl e
      | Inr i \<Rightarrow> Inr (reset_impacts (s\<lparr>vertices := (vertices s)[i := position]\<rparr>)))"

definition move_vertex :: "int \<Rightarrow> vec2 \<Rightarrow> State \<Rightarrow> error + State" where
  "move_vertex vertex_idx delta s =
     (case row_index vertex_idx (vertices s) of
        Inl e \<Rightarrow> Inl e
      | Inr i \<Rightarrow>
          Inr (reset_impacts (s\<lparr>vertices := (vertices s)[i := vadd (vertices s ! i) delta]\<rparr>)))"

definition move_displacement :: "int \<Rightarrow> vec2 \<Rightarrow> State \<Rightarrow> error + State" where
  "move_displacement vertex_idx delta s =
     (case row_index vertex_idx (displacements s) of
        Inl e \<Rightarrow> Inl e
      | Inr i \<Rightarrow>
          Inr (reset_impacts
                 (s\<lparr>displacements := (displacements s)[i := vadd (displacements s ! i) delta]\<rparr>)))"

text \<open>
  The column-wise reductions of \<open>State::load_scene\<close> over the stacked matrix
  \<open>all_vertices\<close>: the least and the greatest coefficient of each column.
\<close>

definition colwise_minCoeff :: "vec2 list \<Rightarrow> vec2" where
  "colwise_minCoeff vs = (Min (set (map fst vs)), Min (set (map snd vs)))"

definition colwise_maxCoeff :: "vec2 list \<Rightarrow> vec2" where
  "colwise_maxCoeff vs = (Max (set (map fst vs)), Max (set (map snd vs)))"

text \<open>
  The rows of a matrix of results, if every coefficient is finite. A result that is not
  finite is outside the model of finite doubles as reals.
\<close>

definition rounded_vec :: "double \<times> double \<Rightarrow> vec2 option" where
  "rounded_vec d = (case d of (Finite x, Finite y) \<Rightarrow> Some (x, y) | _ \<Rightarrow> None)"

definition rounded_rows :: "(double \<times> double) list \<Rightarrow> vec2 list option" where
  "rounded_rows ds = those (map rounded_vec ds)"

text \<open>\<open>vertices + displacements\<close>: the rounded sum of each pair of coefficients.\<close>

definition displaced_vertices :: "(real \<Rightarrow> double) \<Rightarrow> vec2 list \<Rightarrow> vec2 list \<Rightarrow> vec2 list option" where
  "displaced_vertices rd V U =
     rounded_rows (map2 (\<lambda>v u. (rd (fst v + fst u), rd (snd v + snd u))) V U)"

text \<open>
  One coefficient of \<open>(vertices.rowwise() - center) * scale\<close>: the rounded difference,
  then the rounded product.
\<close>

definition center_and_scale :: "(real \<Rightarrow> double) \<Rightarrow> real \<Rightarrow> real \<Rightarrow> real \<Rightarrow> double" where
  "center_and_scale rd c scale x =
     (case rd (x - c) of Finite t \<Rightarrow> rd (t * scale) | d \<Rightarrow> d)"

definition centered_and_scaled :: "(real \<Rightarrow> double) \<Rightarrow> vec2 \<Rightarrow> real \<Rightarrow> vec2 list \<Rightarrow> vec2 list option" where
  "centered_and_scaled rd center scale V =
     rounded_rows (map (\<lambda>v. (center_and_scale rd (fst center) scale (fst v),
                               center_and_scale rd (snd center) scale (snd v))) V)"

text \<open>\<open>displacements * scale\<close>.\<close>

definition scaled :: "(real \<Rightarrow> double) \<Rightarrow> real \<Rightarrow> vec2 list \<Rightarrow> vec2 list option" where
  "scaled rd scale U = rounded_rows (map (\<lambda>u. (rd (fst u * scale), rd (snd u * scale))) U)"

text \<open>
  \<open>State::load_scene\<close>. The reader \<open>io::read_scene\<close> is the argument: it is given
  the three matrices of the state, which it writes, and returns them or fails. The
  rounding \<open>rd\<close> of a real to double is an argument, and so is \<open>mean\<close>, the
  column-wise mean of Eigen over doubles, whose order of summation the source does not
  fix. Adding matrices of different sizes fails Eigen's size assertion and reducing an
  empty matrix fails its non-emptiness assertion. Where a result other than the quotient
  by a zero extent overflows or is not a number, the source goes on with an infinity or
  a NaN in a matrix; such runs are outside the model of finite doubles as reals, which
  returns \<open>NonFinite\<close> for them.
\<close>

type_synonym scene = "vec2 list \<times> (int \<times> int) list \<times> vec2 list"

definition load_scene ::
  "(real \<Rightarrow> double) \<Rightarrow> (vec2 list \<Rightarrow> double \<times> double) \<Rightarrow> (string \<Rightarrow> scene \<Rightarrow> error + scene)
     \<Rightarrow> string \<Rightarrow> State \<Rightarrow> error + State" where
  "load_scene rd mean read_scene filename s =
     (case read_scene filename (vertices s, edges s, displacements s) of
        Inl e \<Rightarrow> Inl e
      | Inr (V, E, U) \<Rightarrow>
          if length U \<noteq> length V then Inl AssertionFailed
          else
            (case displaced_vertices rd V U of
               None \<Rightarrow> Inl NonFinite
             | Some displaced \<Rightarrow>
                 let all_vertices = V @ displaced
                 in if all_vertices = [] then Inl EmptyMatrix
                    else
                      let v_min = colwise_minCoeff all_vertices;
                          v_max = colwise_maxCoeff all_vertices;
                          center = mean all_vertices;
                          s1 = s\<lparr>vertices := V, edges := E, displacements := U\<rparr>
                      in (case rounded_vec (rd (fst v_max - fst v_min),
                                            rd (snd v_max - snd v_min)) of
                            None \<Rightarrow> Inl NonFinite
                          | Some bbox \<Rightarrow>
                              if fst bbox > canvas_width s1 \<or> snd bbox > canvas_height s1
                              then
                                (case rounded_vec (rd (canvas_width s1 * (1 / 2)),
                                                   rd (canvas_height s1 * (1 / 2))) of
                                   None \<Rightarrow> Inl NonFinite
                                 | Some half \<Rightarrow>
                                     (case std_min (double_div rd (fst half) (fst bbox))
                                                   (double_div rd (snd half) (snd bbox)) of
                                        Finite scale \<Rightarrow>
                                          (case rounded_vec center of
                                             None \<Rightarrow> Inl NonFinite
                                           | Some c \<Rightarrow>
                                               (case (centered_and_scaled rd c scale V,
                                                      scaled rd scale U) of
                                                  (Some V', Some U') \<Rightarrow>
                                                    Inr (reset_scene
                                                      (s1\<lparr>vertices := V',
                                                          displacements := U'\<rparr>))
                                                | _ \<Rightarrow> Inl NonFinite))
                                      | _ \<Rightarrow> Inl NonFinite))
                              else Inr (reset_scene s1))))"

text \<open>
  The cleared-impacts state: no impacts, a zero volume per edge, no impact assigned to
  any edge, and a zero gradient of \<open>|V| * kDIM\<close> rows and \<open>|E|\<close> columns.
\<close>

definition impacts_cleared :: "State \<Rightarrow> bool" where
  "impacts_cleared s =
     (ev_impacts s = [] \<and> ee_impacts s = []
      \<and> length (volumes s) = length (edges s) \<and> list_all (\<lambda>v. v = 0) (volumes s)
      \<and> length (edge_impact_map s) = length (edges s)
      \<and> list_all (\<lambda>i. i = - 1) (edge_impact_map s)
      \<and> nrows (volume_grad s) = length (vertices s) * 2
      \<and> ncols (volume_grad s) = length (edges s)
      \<and> length (coeffs (volume_grad s)) = nrows (volume_grad s)
      \<and> list_all (\<lambda>r. length r = ncols (volume_grad s) \<and> list_all (\<lambda>x. x = 0) r)
           (coeffs (volume_grad s)))"


text \<open>
  The exact column-wise mean of a matrix, and the rounding and the mean of an
  arithmetic without rounding error, for scenes on which every operation of
  \<open>load_scene\<close> is exact in doubles.
\<close>

definition colwise_mean :: "vec2 list \<Rightarrow> vec2" where
  "colwise_mean vs =
     (sum_list (map fst vs) / real (length vs), sum_list (map snd vs) / real (length vs))"

definition exact_mean :: "vec2 list \<Rightarrow> double \<times> double" where
  "exact_mean vs = (Finite (fst (colwise_mean vs)), Finite (snd (colwise_mean vs)))"




section \<open>The state export of the distance-barrier problem\<close>

text \<open>
  The member \<open>debug_min_distance_\<close> of \<open>DistanceBarrierRBProblem\<close>, the one member
  that \<open>state()\<close> reads.
\<close>

record DistanceBarrierRBProblem =
  debug_min_distance_member :: real

text \<open>
  \<open>DistanceBarrierRBProblem::debug_min_distance\<close>. The distances of the candidates
  at \<open>sigma\<close> come from \<open>constraint_.debug_compute_distances\<close> after the assembler's
  map from \<open>sigma\<close> to displacements; the composition is the argument
  \<open>debug_compute_distances\<close>.
\<close>

definition debug_min_distance :: "(real list \<Rightarrow> real list) \<Rightarrow> real list \<Rightarrow> real" where
  "debug_min_distance debug_compute_distances sigma =
     (let d = debug_compute_distances sigma
      in if length d > 0 then Min (set d) else - 1)"

text \<open>
  \<open>DistanceBarrierRBProblem::take_step\<close> stores the minimum distance before it calls
  the base class, whose result \<open>base_take_step\<close> it returns.
\<close>

definition take_step ::
  "(real list \<Rightarrow> real list) \<Rightarrow> bool \<Rightarrow> real list \<Rightarrow> DistanceBarrierRBProblem
     \<Rightarrow> bool \<times> DistanceBarrierRBProblem" where
  "take_step debug_compute_distances base_take_step sigma p =
     (base_take_step,
      p\<lparr>debug_min_distance_member := debug_min_distance debug_compute_distances sigma\<rparr>)"

text \<open>
  \<open>DistanceBarrierRBProblem::simulation_step\<close>: \<open>base_has_collision\<close> is the result of
  the base class, \<open>sigma\<close> the degrees of freedom of the poses it has computed, and
  \<open>min_distance\<close> the setting \<open>constraint_.min_distance\<close>.
\<close>

definition simulation_step ::
  "(real list \<Rightarrow> real list) \<Rightarrow> bool \<Rightarrow> real list \<Rightarrow> real \<Rightarrow> DistanceBarrierRBProblem
     \<Rightarrow> bool \<times> DistanceBarrierRBProblem" where
  "simulation_step debug_compute_distances base_has_collision sigma min_distance p =
     (let p1 = p\<lparr>debug_min_distance_member :=
                    debug_min_distance debug_compute_distances sigma\<rparr>;
          has_collision =
            (if debug_min_distance_member p1 \<ge> 0
                \<and> debug_min_distance_member p1 \<le> min_distance
             then True else base_has_collision)
      in (has_collision, p1))"

text \<open>
  \<open>json[key] = value\<close> of nlohmann::json: a null value becomes an object, an object
  gets or replaces the key, and any other value raises a type error.
\<close>

fun object_update :: "string \<Rightarrow> 'a json \<Rightarrow> (string \<times> 'a json) list \<Rightarrow> (string \<times> 'a json) list" where
  "object_update k v [] = [(k, v)]"
| "object_update k v ((k', v') # kvs) =
     (if k' = k then (k, v) # kvs else (k', v') # object_update k v kvs)"

definition json_set :: "'a json \<Rightarrow> string \<Rightarrow> 'a json \<Rightarrow> error + 'a json" where
  "json_set j k v =
     (case j of
        JNull \<Rightarrow> Inr (JObject [(k, v)])
      | JObject kvs \<Rightarrow> Inr (JObject (object_update k v kvs))
      | _ \<Rightarrow> Inl TypeError)"

text \<open>The value of a key of an object, if the value is an object with that key.\<close>

definition json_lookup :: "'a json \<Rightarrow> string \<Rightarrow> 'a json option" where
  "json_lookup j k = (case j of JObject kvs \<Rightarrow> map_of kvs k | _ \<Rightarrow> None)"

text \<open>
  \<open>DistanceBarrierRBProblem::state\<close>; \<open>base_state\<close> is the value of
  \<open>RigidBodyProblem::state()\<close>.
\<close>

definition state :: "real json \<Rightarrow> DistanceBarrierRBProblem \<Rightarrow> error + real json" where
  "state base_state p =
     (if debug_min_distance_member p < 0
      then json_set base_state ''min_distance'' JNull
      else json_set base_state ''min_distance'' (JNumber (debug_min_distance_member p)))"

section \<open>Serialising matrices and vectors\<close>

text \<open>\<open>io::to_json\<close> of a vector and of a matrix.\<close>

definition to_json_vector :: "'a list \<Rightarrow> 'a json" where
  "to_json_vector vector = JArray (map JNumber vector)"

definition to_json :: "'a matrix \<Rightarrow> 'a json" where
  "to_json matrix =
     JArray (map (\<lambda>i. JArray (map (\<lambda>j. JNumber (coeff matrix i j)) [0..<ncols matrix]))
               [0..<nrows matrix])"

text \<open>
  \<open>json.get<T>()\<close> for an arithmetic \<open>T\<close> accepts a number and a boolean, and
  \<open>json.get<std::vector<T>>()\<close> an array of such; anything else raises a type error.
\<close>

definition get_number :: "'a::zero_neq_one json \<Rightarrow> error + 'a" where
  "get_number j =
     (case j of JNumber x \<Rightarrow> Inr x | JBool b \<Rightarrow> Inr (of_bool b) | _ \<Rightarrow> Inl TypeError)"

fun get_all :: "('b \<Rightarrow> error + 'c) \<Rightarrow> 'b list \<Rightarrow> error + 'c list" where
  "get_all g [] = Inr []"
| "get_all g (x # xs) =
     (case g x of
        Inl e \<Rightarrow> Inl e
      | Inr y \<Rightarrow> (case get_all g xs of Inl e \<Rightarrow> Inl e | Inr ys \<Rightarrow> Inr (y # ys)))"

definition get_vector :: "'a::zero_neq_one json \<Rightarrow> error + 'a list" where
  "get_vector j = (case j of JArray xs \<Rightarrow> get_all get_number xs | _ \<Rightarrow> Inl TypeError)"

definition get_vector_vector :: "'a::zero_neq_one json \<Rightarrow> error + 'a list list" where
  "get_vector_vector j = (case j of JArray xs \<Rightarrow> get_all get_vector xs | _ \<Rightarrow> Inl TypeError)"

text \<open>\<open>io::from_json\<close> into a vector: the vector is assigned whatever it held.\<close>

definition from_json_vector :: "'a::zero_neq_one json \<Rightarrow> 'a list \<Rightarrow> error + 'a list" where
  "from_json_vector j vector =
     (case get_vector j of Inl e \<Rightarrow> Inl e | Inr list \<Rightarrow> Inr list)"

text \<open>
  The loop of \<open>io::from_json\<close> into a matrix: each row of the list must have
  \<open>num_cols\<close> entries (the assertion) and becomes the row of the matrix.
\<close>

fun assign_rows :: "nat \<Rightarrow> 'a list list \<Rightarrow> error + 'a list list" where
  "assign_rows num_cols [] = Inr []"
| "assign_rows num_cols (r # rs) =
     (if num_cols = length r
      then (case assign_rows num_cols rs of Inl e \<Rightarrow> Inl e | Inr m \<Rightarrow> Inr (r # m))
      else Inl AssertionFailed)"

text \<open>
  \<open>io::from_json\<close> into a matrix; \<open>matrix\<close> is what the destination holds at the
  call. With no rows in the list the function returns before it touches the matrix.
\<close>

definition from_json :: "'a::zero_neq_one json \<Rightarrow> 'a matrix \<Rightarrow> error + 'a matrix" where
  "from_json j matrix =
     (case get_vector_vector j of
        Inl e \<Rightarrow> Inl e
      | Inr list \<Rightarrow>
          let num_rows = length list
          in if num_rows = 0 then Inr matrix
             else
               let num_cols = length (list ! 0)
               in (case assign_rows num_cols list of
                     Inl e \<Rightarrow> Inl e
                   | Inr rows \<Rightarrow>
                       Inr \<lparr>nrows = num_rows, ncols = num_cols, coeffs = rows\<rparr>))"

section \<open>Detecting, sorting and pruning impacts\<close>

text \<open>
  Modelled from the spec: the comparator \<open>compare_impacts_by_time\<close>, which
  \<open>state.cpp\<close> passes to \<open>std::sort\<close> and whose definition is not among the
  sources. Section 4.5, step 1: impacts are sorted ascending by time, ties broken by
  \<open>(edge_index, vertex_index)\<close> lexicographically. As a comparator it is the strict
  order.
\<close>

definition compare_impacts_by_time :: "EdgeVertexImpact \<Rightarrow> EdgeVertexImpact \<Rightarrow> bool" where
  "compare_impacts_by_time impact1 impact2 =
     (time impact1 < time impact2
      \<or> (time impact1 = time impact2
          \<and> (edge_index impact1 < edge_index impact2
              \<or> (edge_index impact1 = edge_index impact2
                  \<and> vertex_index impact1 < vertex_index impact2))))"

text \<open>
  \<open>std::sort(first, last, comp)\<close>, as the insertion of each element before the first
  element that it precedes.
\<close>

fun insert_by :: "('a \<Rightarrow> 'a \<Rightarrow> bool) \<Rightarrow> 'a \<Rightarrow> 'a list \<Rightarrow> 'a list" where
  "insert_by cmp x [] = [x]"
| "insert_by cmp x (y # ys) = (if cmp x y then x # y # ys else y # insert_by cmp x ys)"

definition std_sort :: "('a \<Rightarrow> 'a \<Rightarrow> bool) \<Rightarrow> 'a list \<Rightarrow> 'a list" where
  "std_sort cmp xs = foldr (insert_by cmp) xs []"

text \<open>
  Modelled from the spec: \<open>convert_edge_vertex_to_edge_edge_impacts\<close>, which is not
  among the sources. Section 4.5, step 2: each edge-vertex impact is lifted; for an edge
  \<open>e'\<close> that the struck vertex belongs to, the impact \<open>(time, e, alpha, e', alpha')\<close>
  is emitted. The spec leaves the computation of \<open>alpha'\<close> to the pose of the other
  body: it is the argument \<open>alpha_other\<close>.
\<close>

definition lift_impact ::
  "(EdgeVertexImpact \<Rightarrow> nat \<Rightarrow> real) \<Rightarrow> (int \<times> int) list \<Rightarrow> EdgeVertexImpact
     \<Rightarrow> EdgeEdgeImpact list" where
  "lift_impact alpha_other E ev =
     map (\<lambda>e'. \<lparr>time = time ev, edge_a = edge_index ev, alpha_a = alpha ev,
                 edge_b = e', alpha_b = alpha_other ev e'\<rparr>)
       (filter (\<lambda>e'. fst (E ! e') = int (vertex_index ev) \<or> snd (E ! e') = int (vertex_index ev))
          [0..<length E])"

definition convert_edge_vertex_to_edge_edge_impacts ::
  "(EdgeVertexImpact \<Rightarrow> nat \<Rightarrow> real) \<Rightarrow> (int \<times> int) list \<Rightarrow> EdgeVertexImpact list
     \<Rightarrow> EdgeEdgeImpact list" where
  "convert_edge_vertex_to_edge_edge_impacts alpha_other E evs =
     concat (map (lift_impact alpha_other E) evs)"

text \<open>
  Modelled from the spec: \<open>ccd::prune_impacts\<close>, which is not among the sources.
  Section 4.5, step 3 and the data model: for each edge \<open>e\<close> the map holds the index of
  the earliest edge-edge impact involving \<open>e\<close>, or \<open>-1\<close> if the edge has no impact.
  Among impacts of equal time the first in the list is kept. The map has one entry per
  entry of the vector it is given.
\<close>

definition involves :: "nat \<Rightarrow> EdgeEdgeImpact \<Rightarrow> bool" where
  "involves e impact = (edge_a impact = e \<or> edge_b impact = e)"

fun earliest_from :: "EdgeEdgeImpact list \<Rightarrow> nat \<Rightarrow> nat list \<Rightarrow> nat" where
  "earliest_from all_impacts best [] = best"
| "earliest_from all_impacts best (i # rest) =
     earliest_from all_impacts
       (if time (all_impacts ! i) < time (all_impacts ! best) then i else best) rest"

definition earliest_impact :: "EdgeEdgeImpact list \<Rightarrow> nat \<Rightarrow> int" where
  "earliest_impact all_impacts e =
     (case filter (\<lambda>i. involves e (all_impacts ! i)) [0..<length all_impacts] of
        [] \<Rightarrow> - 1
      | i # rest \<Rightarrow> int (earliest_from all_impacts i rest))"

definition prune_impacts :: "EdgeEdgeImpact list \<Rightarrow> int list \<Rightarrow> int list" where
  "prune_impacts all_impacts pruned_impact_indices =
     map (earliest_impact all_impacts) [0..<length pruned_impact_indices]"

text \<open>
  \<open>State::detect_edge_vertex_collisions\<close>. The narrow phase
  \<open>ccd::detect_edge_vertex_collisions\<close> is the argument \<open>ccd_detect\<close>: it is given the
  scene and the impact list, which it writes. The number that \<open>prune_impacts\<close> returns,
  of which the spec says nothing, is the argument \<open>num_pruned\<close>.
\<close>

definition detect_edge_vertex_collisions ::
  "(vec2 list \<Rightarrow> vec2 list \<Rightarrow> (int \<times> int) list \<Rightarrow> EdgeVertexImpact list \<Rightarrow> EdgeVertexImpact list)
     \<Rightarrow> (EdgeVertexImpact \<Rightarrow> nat \<Rightarrow> real) \<Rightarrow> (EdgeEdgeImpact list \<Rightarrow> int list \<Rightarrow> int)
     \<Rightarrow> State \<Rightarrow> State" where
  "detect_edge_vertex_collisions ccd_detect alpha_other num_pruned s =
     (let s1 = s\<lparr>ev_impacts :=
                   ccd_detect (vertices s) (displacements s) (edges s) (ev_impacts s)\<rparr>;
          s2 = s1\<lparr>ev_impacts := std_sort compare_impacts_by_time (ev_impacts s1)\<rparr>;
          s3 = s2\<lparr>ee_impacts :=
                    convert_edge_vertex_to_edge_edge_impacts alpha_other (edges s2)
                      (ev_impacts s2)\<rparr>;
          s4 = s3\<lparr>edge_impact_map := prune_impacts (ee_impacts s3) (edge_impact_map s3)\<rparr>
      in s4\<lparr>num_pruned_impacts := num_pruned (ee_impacts s4) (edge_impact_map s4)\<rparr>)"

text \<open>
  The order that the spec asks of the sorted list: ascending time, ties ordered
  lexicographically by \<open>(edge_index, vertex_index)\<close>.
\<close>

definition time_then_indices :: "EdgeVertexImpact \<Rightarrow> EdgeVertexImpact \<Rightarrow> bool" where
  "time_then_indices a b =
     (time a < time b
      \<or> (time a = time b
          \<and> (edge_index a < edge_index b
              \<or> (edge_index a = edge_index b \<and> vertex_index a \<le> vertex_index b))))"

text \<open>
  A scene of three edges and a narrow phase that reports three impacts, two of them at
  the same time and none on the third edge.
\<close>

definition example_state :: State where
  "example_state = add_edges 0 0 [(0, 1), (2, 3), (4, 5)] (new_State 0 0 0)"

definition example_detect ::
  "vec2 list \<Rightarrow> vec2 list \<Rightarrow> (int \<times> int) list \<Rightarrow> EdgeVertexImpact list
     \<Rightarrow> EdgeVertexImpact list" where
  "example_detect V U E old =
     [\<lparr>time = 1 / 2, edge_index = 1, alpha = 1 / 2, vertex_index = 0\<rparr>,
      \<lparr>time = 1 / 2, edge_index = 0, alpha = 1 / 4, vertex_index = 3\<rparr>,
      \<lparr>time = 1 / 4, edge_index = 0, alpha = 1 / 3, vertex_index = 2\<rparr>]"

section \<open>Intervals and the certified root finder\<close>

text \<open>
  Modelled from the spec: the scalar \<open>Interval\<close>, which is declared outside the
  sources (a \<open>boost::numeric::interval\<close> over doubles). Section 4.1: a closed interval
  \<open>[lo, hi]\<close> with the standard operations, and \<open>zero_in\<close> true iff \<open>0\<close> is in the
  interval. The endpoints are reals and are computed exactly: the outward rounding of the
  operations is not modelled.
\<close>

record Interval =
  lower :: real
  upper :: real

definition zero_in :: "Interval \<Rightarrow> bool" where
  "zero_in x = (lower x \<le> 0 \<and> 0 \<le> upper x)"

definition width :: "Interval \<Rightarrow> real" where
  "width x = upper x - lower x"

definition median :: "Interval \<Rightarrow> real" where
  "median x = (lower x + upper x) / 2"

definition bisect :: "Interval \<Rightarrow> Interval \<times> Interval" where
  "bisect x = (\<lparr>lower = lower x, upper = median x\<rparr>, \<lparr>lower = median x, upper = upper x\<rparr>)"


definition interval_sub :: "Interval \<Rightarrow> Interval \<Rightarrow> Interval" where
  "interval_sub x y = \<lparr>lower = lower x - upper y, upper = upper x - lower y\<rparr>"


text \<open>
  Modelled from the spec: \<open>interval_root_finder\<close>, which is not among the sources.
  Section 4.2: a stack of subintervals starts with the domain; the top \<open>x\<close> is popped
  and discarded if \<open>0\<close> is not in \<open>f x\<close>; else, if its width is at most \<open>tol\<close>, it
  is returned as the root enclosure when the inside predicate holds and discarded when
  it does not; else it is split at its midpoint and the right half pushed before the
  left half. An exhausted stack is the result \<open>hit = false\<close>. The predicate may raise
  an error, which ends the search. The spec does not say what the output interval holds
  when there is no root: it is the argument \<open>no_root\<close>. A search that goes on forever
  is the value \<open>None\<close>.
\<close>

partial_function (option) interval_root_finder_loop ::
  "(Interval \<Rightarrow> Interval) \<Rightarrow> (Interval \<Rightarrow> error + bool) \<Rightarrow> Interval \<Rightarrow> real \<Rightarrow> Interval list
     \<Rightarrow> (error + bool \<times> Interval) option" where
  "interval_root_finder_loop f constraint_predicate no_root tol stack =
     (case stack of
        [] \<Rightarrow> Some (Inr (False, no_root))
      | x # rest \<Rightarrow>
          if \<not> zero_in (f x) then
            interval_root_finder_loop f constraint_predicate no_root tol rest
          else if width x \<le> tol then
            (case constraint_predicate x of
               Inl e \<Rightarrow> Some (Inl e)
             | Inr inside \<Rightarrow>
                 if inside then Some (Inr (True, x))
                 else interval_root_finder_loop f constraint_predicate no_root tol rest)
          else
            interval_root_finder_loop f constraint_predicate no_root tol
              (fst (bisect x) # snd (bisect x) # rest))"

definition interval_root_finder ::
  "(Interval \<Rightarrow> Interval) \<Rightarrow> (Interval \<Rightarrow> error + bool) \<Rightarrow> Interval \<Rightarrow> Interval \<Rightarrow> real
     \<Rightarrow> (error + bool \<times> Interval) option" where
  "interval_root_finder f constraint_predicate x0 no_root tol =
     interval_root_finder_loop f constraint_predicate no_root tol [x0]"

section \<open>Narrow-phase time of impact\<close>





text \<open>
  The end of every time-of-impact function: \<open>toi = toi_interval.lower()\<close> and the
  return of \<open>is_impacting\<close>. An error raised inside the root finder passes through.
\<close>

definition conservative_toi ::
  "(error + bool \<times> Interval) option \<Rightarrow> (error + bool \<times> real) option" where
  "conservative_toi found =
     (case found of
        None \<Rightarrow> None
      | Some (Inl e) \<Rightarrow> Some (Inl e)
      | Some (Inr (is_impacting, toi_interval)) \<Rightarrow> Some (Inr (is_impacting, lower toi_interval)))"

text \<open>
  The closures \<open>distance\<close> and \<open>is_point_along_edge\<close> of the edge-vertex functions (of
  both files). The positions of the vertex and of the two edge vertices at time \<open>t\<close>
  come from the poses and \<open>RigidBody::world_vertex\<close>, whose sources are not available:
  the closure \<open>vertex_positions\<close> is an argument, and so are the geometric functions
  \<open>point_line_signed_distance\<close> and \<open>is_point_along_segment\<close>.
\<close>

definition ev_distance :: "(Interval \<Rightarrow> 'v \<times> 'v \<times> 'v) \<Rightarrow> ('v \<Rightarrow> 'v \<Rightarrow> 'v \<Rightarrow> Interval) \<Rightarrow> Interval \<Rightarrow> Interval" where
  "ev_distance vertex_positions point_line_signed_distance t =
     (case vertex_positions t of
        (vertex, edge_vertex0, edge_vertex1) \<Rightarrow>
          point_line_signed_distance vertex edge_vertex0 edge_vertex1)"

definition is_point_along_edge ::
  "(Interval \<Rightarrow> 'v \<times> 'v \<times> 'v) \<Rightarrow> ('v \<Rightarrow> 'v \<Rightarrow> 'v \<Rightarrow> bool) \<Rightarrow> Interval \<Rightarrow> error + bool" where
  "is_point_along_edge vertex_positions is_point_along_segment t =
     (case vertex_positions t of
        (vertex, edge_vertex0, edge_vertex1) \<Rightarrow>
          Inr (is_point_along_segment vertex edge_vertex0 edge_vertex1))"

text \<open>\<open>compute_edge_vertex_time_of_impact\<close> (displacement form, tolerance \<open>1e-8\<close>).\<close>

definition compute_edge_vertex_time_of_impact ::
  "(Interval \<Rightarrow> 'v \<times> 'v \<times> 'v) \<Rightarrow> ('v \<Rightarrow> 'v \<Rightarrow> 'v \<Rightarrow> Interval) \<Rightarrow> ('v \<Rightarrow> 'v \<Rightarrow> 'v \<Rightarrow> bool)
     \<Rightarrow> Interval \<Rightarrow> (error + bool \<times> real) option" where
  "compute_edge_vertex_time_of_impact vertex_positions point_line_signed_distance
       is_point_along_segment no_root =
     conservative_toi
       (interval_root_finder
          (ev_distance vertex_positions point_line_signed_distance)
          (is_point_along_edge vertex_positions is_point_along_segment)
          \<lparr>lower = 0, upper = 1\<rparr> no_root (1 / 10 ^ 8))"

text \<open>
  \<open>compute_edge_vertex_time_of_impact_redon\<close>: the search domain is
  \<open>Interval(0, earliest_toi)\<close> and the tolerance an argument.
\<close>

definition compute_edge_vertex_time_of_impact_redon ::
  "(Interval \<Rightarrow> 'v \<times> 'v \<times> 'v) \<Rightarrow> ('v \<Rightarrow> 'v \<Rightarrow> 'v \<Rightarrow> Interval) \<Rightarrow> ('v \<Rightarrow> 'v \<Rightarrow> 'v \<Rightarrow> bool)
     \<Rightarrow> Interval \<Rightarrow> real \<Rightarrow> real \<Rightarrow> (error + bool \<times> real) option" where
  "compute_edge_vertex_time_of_impact_redon vertex_positions point_line_signed_distance
       is_point_along_segment no_root earliest_toi toi_tolerance =
     conservative_toi
       (interval_root_finder
          (ev_distance vertex_positions point_line_signed_distance)
          (is_point_along_edge vertex_positions is_point_along_segment)
          \<lparr>lower = 0, upper = earliest_toi\<rparr> no_root toi_tolerance)"

text \<open>The closure \<open>distance\<close> of the edge-edge functions.\<close>

definition ee_distance ::
  "(Interval \<Rightarrow> 'v \<times> 'v \<times> 'v \<times> 'v) \<Rightarrow> ('v \<Rightarrow> 'v \<Rightarrow> 'v \<Rightarrow> 'v \<Rightarrow> Interval) \<Rightarrow> Interval \<Rightarrow> Interval" where
  "ee_distance vertex_positions line_line_signed_distance t =
     (case vertex_positions t of
        (edgeA_vertex0, edgeA_vertex1, edgeB_vertex0, edgeB_vertex1) \<Rightarrow>
          line_line_signed_distance edgeA_vertex0 edgeA_vertex1 edgeB_vertex0 edgeB_vertex1)"



text \<open>
  \<open>compute_edge_edge_time_of_impact_redon\<close>: the inside predicate is
  \<open>geometry::are_edges_intersecting\<close>, an argument.
\<close>

definition is_intersection_inside_edges_redon ::
  "(Interval \<Rightarrow> 'v \<times> 'v \<times> 'v \<times> 'v) \<Rightarrow> ('v \<Rightarrow> 'v \<Rightarrow> 'v \<Rightarrow> 'v \<Rightarrow> bool) \<Rightarrow> Interval \<Rightarrow> error + bool" where
  "is_intersection_inside_edges_redon vertex_positions are_edges_intersecting t =
     (case vertex_positions t of
        (edgeA_vertex0, edgeA_vertex1, edgeB_vertex0, edgeB_vertex1) \<Rightarrow>
          Inr (are_edges_intersecting edgeA_vertex0 edgeA_vertex1 edgeB_vertex0 edgeB_vertex1))"

definition compute_edge_edge_time_of_impact_redon ::
  "(Interval \<Rightarrow> 'v \<times> 'v \<times> 'v \<times> 'v) \<Rightarrow> ('v \<Rightarrow> 'v \<Rightarrow> 'v \<Rightarrow> 'v \<Rightarrow> Interval)
     \<Rightarrow> ('v \<Rightarrow> 'v \<Rightarrow> 'v \<Rightarrow> 'v \<Rightarrow> bool) \<Rightarrow> Interval \<Rightarrow> real \<Rightarrow> real
     \<Rightarrow> (error + bool \<times> real) option" where
  "compute_edge_edge_time_of_impact_redon vertex_positions line_line_signed_distance
       are_edges_intersecting no_root earliest_toi toi_tolerance =
     conservative_toi
       (interval_root_finder
          (ee_distance vertex_positions line_line_signed_distance)
          (is_intersection_inside_edges_redon vertex_positions are_edges_intersecting)
          \<lparr>lower = 0, upper = earliest_toi\<rparr> no_root toi_tolerance)"

text \<open>
  The closures of the face-vertex functions. The first file computes the normal of the
  triangle (not normalised) and the distance of the point to the plane through
  \<open>face_vertex0\<close>; the second passes the three face vertices.
\<close>

definition fv_distance ::
  "(Interval \<Rightarrow> 'v \<times> 'v \<times> 'v \<times> 'v) \<Rightarrow> ('v \<Rightarrow> 'v \<Rightarrow> 'v \<Rightarrow> bool \<Rightarrow> 'v) \<Rightarrow> ('v \<Rightarrow> 'v \<Rightarrow> 'v \<Rightarrow> Interval)
     \<Rightarrow> Interval \<Rightarrow> Interval" where
  "fv_distance vertex_positions triangle_normal point_plane_signed_distance t =
     (case vertex_positions t of
        (vertex, face_vertex0, face_vertex1, face_vertex2) \<Rightarrow>
          let normal = triangle_normal face_vertex0 face_vertex1 face_vertex2 False
          in point_plane_signed_distance vertex face_vertex0 normal)"

definition fv_distance_redon ::
  "(Interval \<Rightarrow> 'v \<times> 'v \<times> 'v \<times> 'v) \<Rightarrow> ('v \<Rightarrow> 'v \<Rightarrow> 'v \<Rightarrow> 'v \<Rightarrow> Interval) \<Rightarrow> Interval \<Rightarrow> Interval" where
  "fv_distance_redon vertex_positions point_plane_signed_distance t =
     (case vertex_positions t of
        (vertex, face_vertex0, face_vertex1, face_vertex2) \<Rightarrow>
          point_plane_signed_distance vertex face_vertex0 face_vertex1 face_vertex2)"

definition is_point_inside_triangle ::
  "(Interval \<Rightarrow> 'v \<times> 'v \<times> 'v \<times> 'v) \<Rightarrow> ('v \<Rightarrow> 'v \<Rightarrow> 'v \<Rightarrow> 'v \<Rightarrow> bool) \<Rightarrow> Interval \<Rightarrow> error + bool" where
  "is_point_inside_triangle vertex_positions geometry_is_point_inside_triangle t =
     (case vertex_positions t of
        (vertex, face_vertex0, face_vertex1, face_vertex2) \<Rightarrow>
          Inr (geometry_is_point_inside_triangle vertex face_vertex0 face_vertex1 face_vertex2))"

definition compute_face_vertex_time_of_impact ::
  "(Interval \<Rightarrow> 'v \<times> 'v \<times> 'v \<times> 'v) \<Rightarrow> ('v \<Rightarrow> 'v \<Rightarrow> 'v \<Rightarrow> bool \<Rightarrow> 'v) \<Rightarrow> ('v \<Rightarrow> 'v \<Rightarrow> 'v \<Rightarrow> Interval)
     \<Rightarrow> ('v \<Rightarrow> 'v \<Rightarrow> 'v \<Rightarrow> 'v \<Rightarrow> bool) \<Rightarrow> Interval \<Rightarrow> real
     \<Rightarrow> (error + bool \<times> real) option" where
  "compute_face_vertex_time_of_impact vertex_positions triangle_normal
       point_plane_signed_distance geometry_is_point_inside_triangle no_root default_tol =
     conservative_toi
       (interval_root_finder
          (fv_distance vertex_positions triangle_normal point_plane_signed_distance)
          (is_point_inside_triangle vertex_positions geometry_is_point_inside_triangle)
          \<lparr>lower = 0, upper = 1\<rparr> no_root default_tol)"

definition compute_face_vertex_time_of_impact_redon ::
  "(Interval \<Rightarrow> 'v \<times> 'v \<times> 'v \<times> 'v) \<Rightarrow> ('v \<Rightarrow> 'v \<Rightarrow> 'v \<Rightarrow> 'v \<Rightarrow> Interval)
     \<Rightarrow> ('v \<Rightarrow> 'v \<Rightarrow> 'v \<Rightarrow> 'v \<Rightarrow> bool) \<Rightarrow> Interval \<Rightarrow> real \<Rightarrow> real
     \<Rightarrow> (error + bool \<times> real) option" where
  "compute_face_vertex_time_of_impact_redon vertex_positions point_plane_signed_distance
       geometry_is_point_inside_triangle no_root earliest_toi toi_tolerance =
     conservative_toi
       (interval_root_finder
          (fv_distance_redon vertex_positions point_plane_signed_distance)
          (is_point_inside_triangle vertex_positions geometry_is_point_inside_triangle)
          \<lparr>lower = 0, upper = earliest_toi\<rparr> no_root toi_tolerance)"

text \<open>An interval all of whose points lie between \<open>a\<close> and \<open>b\<close>.\<close>

definition enclosed :: "real \<Rightarrow> real \<Rightarrow> Interval \<Rightarrow> bool" where
  "enclosed a b x = (a \<le> lower x \<and> lower x \<le> upper x \<and> upper x \<le> b)"









text \<open>
  Example closures over one-dimensional positions: a vertex at position \<open>t\<close> at time
  \<open>t\<close> and an edge or face resting at \<open>1 / 4\<close>, the distance being the difference.
\<close>

definition example_positions3 :: "Interval \<Rightarrow> Interval \<times> Interval \<times> Interval" where
  "example_positions3 t =
     (t, \<lparr>lower = 1 / 4, upper = 1 / 4\<rparr>, \<lparr>lower = 1 / 4, upper = 1 / 4\<rparr>)"

definition example_positions4 :: "Interval \<Rightarrow> Interval \<times> Interval \<times> Interval \<times> Interval" where
  "example_positions4 t =
     (t, \<lparr>lower = 1 / 4, upper = 1 / 4\<rparr>, \<lparr>lower = 1 / 4, upper = 1 / 4\<rparr>,
      \<lparr>lower = 1 / 4, upper = 1 / 4\<rparr>)"

definition example_distance3 :: "Interval \<Rightarrow> Interval \<Rightarrow> Interval \<Rightarrow> Interval" where
  "example_distance3 v e0 e1 = interval_sub v e0"

definition example_distance4 :: "Interval \<Rightarrow> Interval \<Rightarrow> Interval \<Rightarrow> Interval \<Rightarrow> Interval" where
  "example_distance4 v f0 f1 f2 = interval_sub v f0"

definition example_normal :: "Interval \<Rightarrow> Interval \<Rightarrow> Interval \<Rightarrow> bool \<Rightarrow> Interval" where
  "example_normal f0 f1 f2 normalized = f1"

section \<open>Theorems\<close>

text \<open>
  C6: for every input vector \<open>sigma\<close>, \<open>eval_mp_g sigma\<close> is a vector of length 1
  whose single entry is plus infinity at 256 bits of precision, whatever \<open>sigma\<close> is.
\<close>

theorem eval_mp_g_infinity:
  "length (eval_mp_g sigma) = 1 \<and> eval_mp_g sigma ! 0 = Multiprecision PosInf 256
   \<and> eval_mp_g sigma = eval_mp_g sigma'"
  by (simp add: eval_mp_g_def)

subsection \<open>Clearing the impacts\<close>

lemma reset_impacts_cleared: "impacts_cleared (reset_impacts s)"
  by (simp add: impacts_cleared_def reset_impacts_def Zero_matrix_def kDIM_def list_all_iff)

lemma reset_scene_cleared: "impacts_cleared (reset_scene s)"
  by (simp add: impacts_cleared_def reset_scene_def reset_impacts_def Zero_matrix_def kDIM_def list_all_iff Let_def)

lemma load_scene_cleared: "load_scene rd mean rs f s = Inr s' \<Longrightarrow> impacts_cleared s'"
  by (auto simp: load_scene_def Let_def reset_scene_cleared
      split: sum.splits prod.splits if_splits double.splits option.splits)

text \<open>
  C9: every scene-mutating operation of \<open>State\<close> (\<open>add_vertex\<close>, \<open>add_edges\<close>,
  \<open>set_vertex_position\<close>, \<open>move_vertex\<close>, \<open>move_displacement\<close>, \<open>load_scene\<close> and
  \<open>reset_scene\<close>) leaves the cleared-impacts state whenever it returns: both impact
  lists are empty, \<open>volumes\<close> is the zero vector of length \<open>|E|\<close>, \<open>edge_impact_map\<close> has
  length \<open>|E|\<close> and every entry \<open>-1\<close>, and \<open>volume_grad\<close> is the zero matrix with
  \<open>|V| * 2\<close> rows and \<open>|E|\<close> columns.
\<close>

theorem scene_mutations_clear_impacts:
  "impacts_cleared (add_vertex u p s)
   \<and> impacts_cleared (add_edges u ui es s)
   \<and> (\<forall>s'. set_vertex_position i p s = Inr s' \<longrightarrow> impacts_cleared s')
   \<and> (\<forall>s'. move_vertex i d s = Inr s' \<longrightarrow> impacts_cleared s')
   \<and> (\<forall>s'. move_displacement i d s = Inr s' \<longrightarrow> impacts_cleared s')
   \<and> (\<forall>s'. load_scene rd mean rs f s = Inr s' \<longrightarrow> impacts_cleared s')
   \<and> impacts_cleared (reset_scene s)"
  by (auto simp: add_vertex_def add_edges_def set_vertex_position_def move_vertex_def
      move_displacement_def Let_def reset_impacts_cleared reset_scene_cleared
      load_scene_cleared split: sum.splits)

theorem scene_mutations_clear_impacts_witness:
  "(\<exists>s'. set_vertex_position 0 (3, 4) (add_vertex 0 (1, 2) (new_State 0 0 0)) = Inr s'
         \<and> impacts_cleared s')
   \<and> (\<exists>s'. move_vertex 0 (3, 4) (add_vertex 0 (1, 2) (new_State 0 0 0)) = Inr s'
         \<and> impacts_cleared s')
   \<and> (\<exists>s'. move_displacement 0 (3, 4) (add_vertex 0 (1, 2) (new_State 0 0 0)) = Inr s'
         \<and> impacts_cleared s')
   \<and> (\<exists>s'. load_scene Finite exact_mean
               (\<lambda>f sc. Inr ([(0, 0), (1, 1)], [(0, 1)], [(0, 0), (0, 0)])) ''scene.json''
               (add_vertex 0 (1, 2) (new_State 0 0 0)) = Inr s'
         \<and> impacts_cleared s')"
proof -
  let ?S = "add_vertex 0 (1, 2) (new_State 0 0 0)"
  let ?rs = "\<lambda>(f::string) (sc::scene). (Inr ([(0, 0), (1, 1)], [(0, 1)], [(0, 0), (0, 0)]) :: error + scene)"
  have v: "vertices ?S = [(1, 2)]" and d: "displacements ?S = [(0, - (1 / 10))]"
    by (simp_all add: add_vertex_def new_State_def conservativeResize_def reset_impacts_def Let_def)
  have a: "\<exists>s'. set_vertex_position 0 (3, 4) ?S = Inr s'"
    by (simp add: set_vertex_position_def row_index_def v)
  have b: "\<exists>s'. move_vertex 0 (3, 4) ?S = Inr s'"
    by (simp add: move_vertex_def row_index_def v)
  have c: "\<exists>s'. move_displacement 0 (3, 4) ?S = Inr s'"
    by (simp add: move_displacement_def row_index_def d)
  have cw: "canvas_width ?S = 10" "canvas_height ?S = 10"
    by (simp_all add: add_vertex_def new_State_def reset_impacts_def Let_def)
  have e: "\<exists>s'. load_scene Finite exact_mean ?rs ''scene.json'' ?S = Inr s'"
    by (simp add: load_scene_def Let_def colwise_minCoeff_def colwise_maxCoeff_def
        displaced_vertices_def rounded_rows_def rounded_vec_def cw)
  from a b c e scene_mutations_clear_impacts [where s = ?S and i = 0 and p = "(3, 4)" and d = "(3, 4)"
      and rs = ?rs and f = "''scene.json''" and rd = Finite and mean = exact_mean]
  show ?thesis by blast
qed

subsection \<open>Fitting a loaded scene to the canvas\<close>

lemma rounded_vec_Some:
  "rounded_vec d = Some v \<Longrightarrow> d = (Finite (fst v), Finite (snd v))"
  by (auto simp: rounded_vec_def split: prod.splits double.splits)

lemma those_map_Some:
  "those (map f xs) = Some ys \<Longrightarrow> list_all2 (\<lambda>x y. f x = Some y) xs ys"
  by (induction xs arbitrary: ys) (auto split: option.splits)

lemma rounded_rows_Some:
  assumes "rounded_rows ds = Some vs"
  shows "map (\<lambda>v. (Finite (fst v), Finite (snd v))) vs = ds"
proof -
  from assms have "list_all2 (\<lambda>d v. rounded_vec d = Some v) ds vs"
    unfolding rounded_rows_def by (rule those_map_Some)
  then have "list_all2 (\<lambda>d v. d = (Finite (fst v), Finite (snd v))) ds vs"
    by (rule list_all2_mono) (rule rounded_vec_Some)
  then show ?thesis
    by (induction rule: list_all2_induct) simp_all
qed


lemma load_scene_read:
  assumes rdx: "read_scene filename (vertices s, edges s, displacements s) = Inr (V, E, U)"
    and len: "length U = length V"
    and D: "displaced_vertices rd V U = Some D"
    and "V @ D \<noteq> []"
    and bbox: "rounded_vec (rd (fst (colwise_maxCoeff (V @ D)) - fst (colwise_minCoeff (V @ D))),
                      rd (snd (colwise_maxCoeff (V @ D)) - snd (colwise_minCoeff (V @ D))))
         = Some bbox"
  shows "load_scene rd mean read_scene filename s =
     (if fst bbox > canvas_width s \<or> snd bbox > canvas_height s then
        (case rounded_vec (rd (canvas_width s * (1 / 2)), rd (canvas_height s * (1 / 2))) of
           None \<Rightarrow> Inl NonFinite
         | Some half \<Rightarrow>
            (case std_min (double_div rd (fst half) (fst bbox))
                          (double_div rd (snd half) (snd bbox)) of
               Finite scale \<Rightarrow>
                 (case rounded_vec (mean (V @ D)) of
                    None \<Rightarrow> Inl NonFinite
                  | Some c \<Rightarrow>
                     (case (centered_and_scaled rd c scale V, scaled rd scale U) of
                        (Some V', Some U') \<Rightarrow>
                          Inr (reset_scene (s\<lparr>vertices := V, edges := E, displacements := U,
                                 vertices := V', displacements := U'\<rparr>))
                      | _ \<Rightarrow> Inl NonFinite))
             | _ \<Rightarrow> Inl NonFinite))
      else Inr (reset_scene (s\<lparr>vertices := V, edges := E, displacements := U\<rparr>)))"
proof -
  from assms(4) have ne: "(V @ D = []) = False" by simp
  show ?thesis
    using rdx len D bbox by (simp add: load_scene_def Let_def ne del: append_is_Nil_conv)
qed

text \<open>
  \<open>load_scene\<close> returns a state for every file of at least one vertex and as many
  displacements, as long as no operation overflows: the rounding and the mean give finite
  doubles, and the rounding leaves \<open>5\<close> as it is.
\<close>

lemma rounded_rows_finite:
  assumes "\<And>d. d \<in> set ds \<Longrightarrow> \<exists>x y. d = (Finite x, Finite y)"
  shows "\<exists>vs. rounded_rows ds = Some vs"
  using assms
proof (induction ds)
  case Nil
  show ?case by (simp add: rounded_rows_def)
next
  case (Cons d ds)
  from Cons.prems [of d] obtain x y where d: "d = (Finite x, Finite y)" by auto
  from Cons.IH Cons.prems obtain vs where "rounded_rows ds = Some vs" by auto
  with d show ?case by (simp add: rounded_rows_def rounded_vec_def)
qed

lemma std_min_scale_finite:
  assumes fin: "\<And>x. \<exists>y. rd x = Finite y"
    and big: "10 < bx \<or> 10 < by"
  shows "\<exists>sc. std_min (double_div rd 5 bx) (double_div rd 5 by) = Finite sc"
proof -
  have q: "double_div rd 5 b = PosInf \<or> (\<exists>y. double_div rd 5 b = Finite y)" for b
    using fin [of "5 / b"] by (auto simp: double_div_def)
  have p: "\<exists>y. double_div rd 5 b = Finite y" if "10 < b" for b
    using fin [of "5 / b"] that by (auto simp: double_div_def)
  from big show ?thesis
  proof
    assume "10 < bx"
    from p [OF this] obtain a where a: "double_div rd 5 bx = Finite a" ..
    from q [of "by"] show ?thesis by (auto simp: std_min_def a)
  next
    assume "10 < by"
    from p [OF this] obtain b where b: "double_div rd 5 by = Finite b" ..
    from q [of bx] show ?thesis by (auto simp: std_min_def b)
  qed
qed

lemma load_scene_returns:
  assumes rdx: "read_scene filename (vertices s, edges s, displacements s) = Inr (V, E, U)"
    and ne: "V \<noteq> []" and len: "length U = length V"
    and cw: "canvas_width s = 10" and ch: "canvas_height s = 10"
    and fin: "\<And>x. \<exists>y. rd x = Finite y"
    and five: "rd 5 = Finite 5"
    and mean: "\<And>vs. \<exists>cx cy. mean vs = (Finite cx, Finite cy)"
  shows "\<exists>s'. load_scene rd mean read_scene filename s = Inr s'"
proof -
  have "\<exists>D. displaced_vertices rd V U = Some D"
    unfolding displaced_vertices_def
  proof (rule rounded_rows_finite)
    fix d assume "d \<in> set (map2 (\<lambda>v u. (rd (fst v + fst u), rd (snd v + snd u))) V U)"
    then obtain v u where "d = (rd (fst v + fst u), rd (snd v + snd u))" by auto
    with fin [of "fst v + fst u"] fin [of "snd v + snd u"]
    show "\<exists>x y. d = (Finite x, Finite y)" by auto
  qed
  then obtain D where D: "displaced_vertices rd V U = Some D" ..
  from ne have ne': "V @ D \<noteq> []" by simp
  let ?b = "(rd (fst (colwise_maxCoeff (V @ D)) - fst (colwise_minCoeff (V @ D))),
             rd (snd (colwise_maxCoeff (V @ D)) - snd (colwise_minCoeff (V @ D))))"
  from fin [of "fst (colwise_maxCoeff (V @ D)) - fst (colwise_minCoeff (V @ D))"]
    fin [of "snd (colwise_maxCoeff (V @ D)) - snd (colwise_minCoeff (V @ D))"]
  obtain bbox where bbox: "rounded_vec ?b = Some bbox"
    by (auto simp: rounded_vec_def)
  note eq = load_scene_read [where read_scene = read_scene and filename = filename
      and mean = mean, OF rdx len D ne' bbox]
  show ?thesis
  proof (cases "10 < fst bbox \<or> 10 < snd bbox")
    case False
    with eq show ?thesis by (simp add: cw ch)
  next
    case True
    have half: "rounded_vec (rd (canvas_width s * (1 / 2)), rd (canvas_height s * (1 / 2)))
        = Some (5, 5)"
      by (simp add: cw ch five rounded_vec_def)
    from std_min_scale_finite [of rd "fst bbox" "snd bbox", OF fin True]
    obtain sc where sc: "std_min (double_div rd 5 (fst bbox)) (double_div rd 5 (snd bbox))
        = Finite sc" by blast
    from mean [of "V @ D"] obtain c where c: "rounded_vec (mean (V @ D)) = Some c"
      by (auto simp: rounded_vec_def)
    have "\<exists>V'. centered_and_scaled rd c sc V = Some V'"
      unfolding centered_and_scaled_def
    proof (rule rounded_rows_finite)
      fix d assume "d \<in> set (map (\<lambda>v. (center_and_scale rd (fst c) sc (fst v),
                                         center_and_scale rd (snd c) sc (snd v))) V)"
      moreover have "\<exists>y. center_and_scale rd a sc x = Finite y" for a x
      proof -
        from fin [of "x - a"] obtain t where t: "rd (x - a) = Finite t" ..
        from fin [of "t * sc"] show ?thesis by (simp add: center_and_scale_def t)
      qed
      ultimately show "\<exists>x y. d = (Finite x, Finite y)" by fastforce
    qed
    then obtain V' where V': "centered_and_scaled rd c sc V = Some V'" ..
    have "\<exists>U'. scaled rd sc U = Some U'"
      unfolding scaled_def
    proof (rule rounded_rows_finite)
      fix d assume "d \<in> set (map (\<lambda>u. (rd (fst u * sc), rd (snd u * sc))) U)"
      then obtain u where "d = (rd (fst u * sc), rd (snd u * sc))" by auto
      with fin [of "fst u * sc"] fin [of "snd u * sc"]
      show "\<exists>x y. d = (Finite x, Finite y)" by auto
    qed
    then obtain U' where U': "scaled rd sc U = Some U'" ..
    from True have t: "canvas_width s < fst bbox \<or> canvas_height s < snd bbox"
      by (simp add: cw ch)
    show ?thesis unfolding eq using t half sc c V' U' by simp
  qed
qed






subsection \<open>The exported minimum distance\<close>

lemma map_of_object_update: "map_of (object_update k v kvs) = (map_of kvs)(k \<mapsto> v)"
  by (induction kvs) (auto simp: fun_eq_iff)

lemma json_lookup_set:
  "json_set j k v = Inr j' \<Longrightarrow> json_lookup j' k = Some v"
  by (auto simp: json_set_def json_lookup_def map_of_object_update split: json.splits)

lemma debug_min_distance_nonneg:
  "list_all (\<lambda>x. 0 \<le> x) (dcd sigma) \<Longrightarrow>
     (debug_min_distance dcd sigma < 0) = (dcd sigma = [])"
  by (auto simp: debug_min_distance_def Let_def list_all_iff Min_less_iff not_less [symmetric])

lemma state_of_stored_min_distance:
  assumes nn: "list_all (\<lambda>x. 0 \<le> x) (dcd sigma)"
    and stored: "debug_min_distance_member p = debug_min_distance dcd sigma"
    and st: "state base_state p = Inr j"
  shows "json_lookup j ''min_distance'' =
      Some (if dcd sigma = [] then JNull else JNumber (Min (set (dcd sigma))))"
proof (cases "dcd sigma = []")
  case True
  then have "debug_min_distance dcd sigma < 0" using nn by (simp add: debug_min_distance_nonneg)
  with st True stored show ?thesis
    by (auto simp: state_def dest: json_lookup_set)
next
  case False
  then have "\<not> debug_min_distance dcd sigma < 0" using nn by (simp add: debug_min_distance_nonneg)
  moreover have "debug_min_distance dcd sigma = Min (set (dcd sigma))"
    using False by (simp add: debug_min_distance_def)
  ultimately show ?thesis using st False stored
    by (auto simp: state_def dest: json_lookup_set)
qed

text \<open>
  C7: every JSON value that \<open>state()\<close> returns has the key \<open>min_distance\<close>. After
  \<open>take_step\<close> or \<open>simulation_step\<close> has stored the minimum distance of a
  configuration whose candidate distances are all non-negative, the value of the key is
  null exactly when there were no candidates (the minimum-distance query returned its
  sentinel \<open>-1\<close>), and otherwise it is the minimum of the distances.
\<close>

theorem state_min_distance:
  "(\<forall>j. state base_state p = Inr j \<longrightarrow> json_lookup j ''min_distance'' \<noteq> None)
   \<and> (list_all (\<lambda>x. 0 \<le> x) (dcd sigma) \<longrightarrow>
       (\<forall>j. state base_state (snd (take_step dcd b sigma p)) = Inr j \<longrightarrow>
          json_lookup j ''min_distance'' =
            Some (if dcd sigma = [] then JNull else JNumber (Min (set (dcd sigma)))))
       \<and> (\<forall>j. state base_state (snd (simulation_step dcd b sigma min_d p)) = Inr j \<longrightarrow>
          json_lookup j ''min_distance'' =
            Some (if dcd sigma = [] then JNull else JNumber (Min (set (dcd sigma))))))"
proof (intro conjI allI impI)
  fix j assume "state base_state p = Inr j"
  then show "json_lookup j ''min_distance'' \<noteq> None"
    by (auto simp: state_def dest: json_lookup_set split: if_splits)
next
  fix j
  assume nn: "list_all (\<lambda>x. 0 \<le> x) (dcd sigma)"
    and st: "state base_state (snd (take_step dcd b sigma p)) = Inr j"
  have "debug_min_distance_member (snd (take_step dcd b sigma p)) = debug_min_distance dcd sigma"
    by (simp add: take_step_def)
  from state_of_stored_min_distance [OF nn this st]
  show "json_lookup j ''min_distance'' =
      Some (if dcd sigma = [] then JNull else JNumber (Min (set (dcd sigma))))" .
next
  fix j
  assume nn: "list_all (\<lambda>x. 0 \<le> x) (dcd sigma)"
    and st: "state base_state (snd (simulation_step dcd b sigma min_d p)) = Inr j"
  have "debug_min_distance_member (snd (simulation_step dcd b sigma min_d p))
      = debug_min_distance dcd sigma"
    by (simp add: simulation_step_def Let_def)
  from state_of_stored_min_distance [OF nn this st]
  show "json_lookup j ''min_distance'' =
      Some (if dcd sigma = [] then JNull else JNumber (Min (set (dcd sigma))))" .
qed

theorem state_min_distance_witness:
  "state (JObject []) (snd (take_step (\<lambda>sigma. [3, 1, 2]) True [] \<lparr>debug_min_distance_member = 0\<rparr>))
     = Inr (JObject [(''min_distance'', JNumber 1)])
   \<and> json_lookup (JObject [(''min_distance'', JNumber (1::real))]) ''min_distance''
     = Some (JNumber 1)
   \<and> state (JObject []) (snd (take_step (\<lambda>sigma. []) True [] \<lparr>debug_min_distance_member = 0\<rparr>))
     = Inr (JObject [(''min_distance'', JNull)])"
proof -
  let ?p = "\<lparr>debug_min_distance_member = 0\<rparr>"
  have a: "state (JObject []) (snd (take_step (\<lambda>sigma. [3, 1, 2]) True [] ?p))
      = Inr (JObject [(''min_distance'', JNumber 1)])"
    by (simp add: state_def take_step_def debug_min_distance_def json_set_def)
  have b: "state (JObject []) (snd (take_step (\<lambda>sigma. []) True [] ?p))
      = Inr (JObject [(''min_distance'', JNull)])"
    by (simp add: state_def take_step_def debug_min_distance_def json_set_def)
  have c: "list_all (\<lambda>x. 0 \<le> x) [3, 1, 2 :: real]" by simp
  from a c state_min_distance [where dcd = "\<lambda>sigma. [3, 1, 2]" and sigma = "[]"
      and base_state = "JObject []" and b = True and p = ?p and min_d = 0]
  have "json_lookup (JObject [(''min_distance'', JNumber (1::real))]) ''min_distance''
      = Some (JNumber 1)"
    by simp
  with a b show ?thesis by simp
qed

subsection \<open>The round trip through JSON\<close>

lemma get_all_map:
  "(\<And>x. x \<in> set xs \<Longrightarrow> g (f x) = Inr x) \<Longrightarrow> get_all g (map f xs) = Inr xs"
  by (induction xs) auto

lemma get_vector_to_json_vector: "get_vector (to_json_vector v) = Inr v"
  by (simp add: get_vector_def to_json_vector_def get_all_map get_number_def)

lemma assign_rows_wf:
  "list_all (\<lambda>r. length r = n) rows \<Longrightarrow> assign_rows n rows = Inr rows"
  by (induction rows) auto

lemma wf_rows:
  assumes "wf_matrix m"
  shows "map (\<lambda>i. map (\<lambda>j. coeff m i j) [0..<ncols m]) [0..<nrows m] = coeffs m"
proof (rule nth_equalityI)
  show "length (map (\<lambda>i. map (\<lambda>j. coeff m i j) [0..<ncols m]) [0..<nrows m]) = length (coeffs m)"
    using assms by (simp add: wf_matrix_def)
next
  fix i assume "i < length (map (\<lambda>i. map (\<lambda>j. coeff m i j) [0..<ncols m]) [0..<nrows m])"
  then have i: "i < nrows m" by simp
  then have "length (coeffs m ! i) = ncols m"
    using assms by (simp add: wf_matrix_def list_all_length)
  then have "map (\<lambda>j. coeff m i j) [0..<ncols m] = coeffs m ! i"
    by (intro nth_equalityI) (simp_all add: coeff_def)
  with i show "map (\<lambda>i. map (\<lambda>j. coeff m i j) [0..<ncols m]) [0..<nrows m] ! i = coeffs m ! i"
    by simp
qed

lemma get_vector_vector_to_json:
  assumes "wf_matrix m"
  shows "get_vector_vector (to_json m) = Inr (coeffs m)"
proof -
  have "to_json m = JArray (map to_json_vector (map (\<lambda>i. map (\<lambda>j. coeff m i j) [0..<ncols m]) [0..<nrows m]))"
    by (simp add: to_json_def to_json_vector_def comp_def)
  also have "\<dots> = JArray (map to_json_vector (coeffs m))"
    using assms by (simp only: wf_rows)
  finally show ?thesis
    by (simp add: get_vector_vector_def get_all_map get_vector_to_json_vector)
qed

text \<open>
  C8, as amended: for every matrix with at least one row, deserialising its
  serialisation gives the matrix back exactly, whatever the destination held; likewise
  for every vector. (The serialisation of a matrix with no rows is the empty array,
  which does not hold the number of columns.)
\<close>

theorem from_json_to_json_roundtrip:
  "(wf_matrix m \<and> 0 < nrows m \<longrightarrow> from_json (to_json m) dest = Inr m)
   \<and> from_json_vector (to_json_vector v) dest_v = Inr v"
proof (intro conjI impI)
  assume a: "wf_matrix m \<and> 0 < nrows m"
  then have len: "length (coeffs m) = nrows m" and all: "list_all (\<lambda>r. length r = ncols m) (coeffs m)"
    by (simp_all add: wf_matrix_def)
  with a have c0: "length (coeffs m ! 0) = ncols m" by (simp add: list_all_length)
  show "from_json (to_json m) dest = Inr m"
    using a len c0 by (simp add: from_json_def get_vector_vector_to_json Let_def assign_rows_wf [OF all])
next
  show "from_json_vector (to_json_vector v) dest_v = Inr v"
    by (simp add: from_json_vector_def get_vector_to_json_vector)
qed

theorem from_json_to_json_roundtrip_witness:
  "wf_matrix \<lparr>nrows = 2, ncols = 2, coeffs = [[1, 2], [3, 4 :: int]]\<rparr>
   \<and> from_json (to_json \<lparr>nrows = 2, ncols = 2, coeffs = [[1, 2], [3, 4 :: int]]\<rparr>)
        \<lparr>nrows = 1, ncols = 1, coeffs = [[7]]\<rparr>
      = Inr \<lparr>nrows = 2, ncols = 2, coeffs = [[1, 2], [3, 4]]\<rparr>"
proof -
  have w: "wf_matrix \<lparr>nrows = 2, ncols = 2, coeffs = [[1, 2], [3, 4 :: int]]\<rparr>"
    by (simp add: wf_matrix_def)
  with from_json_to_json_roundtrip [where m = "\<lparr>nrows = 2, ncols = 2, coeffs = [[1, 2], [3, 4 :: int]]\<rparr>"
      and dest = "\<lparr>nrows = 1, ncols = 1, coeffs = [[7]]\<rparr>"
      and v = "[1, 2 :: int]" and dest_v = "[]"]
  show ?thesis by simp
qed

text \<open>
  The claim as stated fails for a scene matrix with no rows: the serialisation of the
  0-by-2 matrix read into a default-constructed matrix leaves that 0-by-0 matrix.
\<close>

theorem from_json_empty_matrix_counterexample:
  "wf_matrix \<lparr>nrows = 0, ncols = 2, coeffs = ([] :: int list list)\<rparr>
   \<and> from_json (to_json \<lparr>nrows = 0, ncols = 2, coeffs = ([] :: int list list)\<rparr>)
        \<lparr>nrows = 0, ncols = 0, coeffs = []\<rparr>
      \<noteq> Inr \<lparr>nrows = 0, ncols = 2, coeffs = []\<rparr>"
  by (simp add: wf_matrix_def from_json_def to_json_def get_vector_vector_def)

text \<open>
  With no rows in the list, the destination keeps what it held before the call.
\<close>

lemma from_json_stale:
  "from_json (to_json \<lparr>nrows = 0, ncols = 2, coeffs = ([] :: int list list)\<rparr>)
        \<lparr>nrows = 1, ncols = 2, coeffs = [[5, 6]]\<rparr>
      = Inr \<lparr>nrows = 1, ncols = 2, coeffs = [[5, 6]]\<rparr>"
  by (simp add: wf_matrix_def from_json_def to_json_def get_vector_vector_def)

subsection \<open>Sorted and pruned impacts\<close>

lemma set_insert_by: "set (insert_by cmp x xs) = insert x (set xs)"
  by (induction xs) auto

lemma length_insert_by: "length (insert_by cmp x xs) = Suc (length xs)"
  by (induction xs) auto

lemma sorted_insert_by:
  assumes asym: "\<And>a b. cmp a b \<Longrightarrow> \<not> cmp b a"
    and trans: "\<And>a b c. \<not> cmp b a \<Longrightarrow> \<not> cmp c b \<Longrightarrow> \<not> cmp c a"
  shows "sorted_wrt (\<lambda>a b. \<not> cmp b a) xs \<Longrightarrow>
         sorted_wrt (\<lambda>a b. \<not> cmp b a) (insert_by cmp x xs)"
proof (induction xs)
  case Nil
  then show ?case by simp
next
  case (Cons y ys)
  show ?case
  proof (cases "cmp x y")
    case True
    then have xy: "\<not> cmp y x" by (rule asym)
    have "\<not> cmp z x" if "z \<in> set ys" for z
      using Cons.prems that trans [OF xy] by auto
    with True xy Cons.prems show ?thesis by auto
  next
    case False
    with Cons show ?thesis by (auto simp: set_insert_by)
  qed
qed

lemma sorted_std_sort:
  assumes "\<And>a b. cmp a b \<Longrightarrow> \<not> cmp b a"
    and "\<And>a b c. \<not> cmp b a \<Longrightarrow> \<not> cmp c b \<Longrightarrow> \<not> cmp c a"
  shows "sorted_wrt (\<lambda>a b. \<not> cmp b a) (std_sort cmp xs)"
  unfolding std_sort_def
  by (induction xs) (simp_all add: sorted_insert_by [OF assms])

lemma set_std_sort: "set (std_sort cmp xs) = set xs"
  unfolding std_sort_def by (induction xs) (simp_all add: set_insert_by)

lemma length_std_sort: "length (std_sort cmp xs) = length xs"
  unfolding std_sort_def by (induction xs) (simp_all add: length_insert_by)

lemma not_compare_impacts_by_time:
  "(\<not> compare_impacts_by_time b a) = time_then_indices a b"
  by (auto simp: compare_impacts_by_time_def time_then_indices_def)

lemma sorted_compare_impacts_by_time:
  "sorted_wrt time_then_indices (std_sort compare_impacts_by_time xs)"
proof -
  have "sorted_wrt (\<lambda>a b. \<not> compare_impacts_by_time b a) (std_sort compare_impacts_by_time xs)"
    by (rule sorted_std_sort) (auto simp: compare_impacts_by_time_def)
  then show ?thesis by (simp add: not_compare_impacts_by_time)
qed

lemma detect_example:
  "detect_edge_vertex_collisions example_detect (\<lambda>ev e'. 0) (\<lambda>ees m. 0) example_state
   = example_state
       \<lparr>edge_impact_map := [0, 0, - 1],
        ev_impacts :=
          [\<lparr>time = 1 / 4, edge_index = 0, alpha = 1 / 3, vertex_index = 2\<rparr>,
           \<lparr>time = 1 / 2, edge_index = 0, alpha = 1 / 4, vertex_index = 3\<rparr>,
           \<lparr>time = 1 / 2, edge_index = 1, alpha = 1 / 2, vertex_index = 0\<rparr>],
        ee_impacts :=
          [\<lparr>time = 1 / 4, edge_a = 0, alpha_a = 1 / 3, edge_b = 1, alpha_b = 0\<rparr>,
           \<lparr>time = 1 / 2, edge_a = 0, alpha_a = 1 / 4, edge_b = 1, alpha_b = 0\<rparr>,
           \<lparr>time = 1 / 2, edge_a = 1, alpha_a = 1 / 2, edge_b = 0, alpha_b = 0\<rparr>],
        num_pruned_impacts := 0\<rparr>"
  by (simp add: detect_edge_vertex_collisions_def Let_def add_edges_def new_State_def
      example_state_def example_detect_def
      reset_impacts_def conservativeResize_def std_sort_def compare_impacts_by_time_def
      convert_edge_vertex_to_edge_edge_impacts_def lift_impact_def prune_impacts_def
      earliest_impact_def involves_def upt_rec [of _ "Suc _"] upt_rec [of _ "numeral _"]
      Zero_matrix_def kDIM_def)

lemma example_state_lengths:
  "length (edge_impact_map example_state) = length (edges example_state)"
  "length (edges example_state) = 3"
  by (simp_all add: example_state_def add_edges_def new_State_def reset_impacts_def
      conservativeResize_def Let_def)

text \<open>
  C4: after \<open>State::detect_edge_vertex_collisions\<close> the stored list \<open>ev_impacts\<close> is
  sorted in ascending order of impact time, impacts of equal time being ordered
  lexicographically by \<open>(edge_index, vertex_index)\<close>; it holds the impacts that the
  narrow phase reported.
\<close>

theorem ev_impacts_sorted:
  "sorted_wrt time_then_indices
     (ev_impacts (detect_edge_vertex_collisions ccd_detect alpha_other num_pruned s))
   \<and> set (ev_impacts (detect_edge_vertex_collisions ccd_detect alpha_other num_pruned s))
     = set (ccd_detect (vertices s) (displacements s) (edges s) (ev_impacts s))
   \<and> length (ev_impacts (detect_edge_vertex_collisions ccd_detect alpha_other num_pruned s))
     = length (ccd_detect (vertices s) (displacements s) (edges s) (ev_impacts s))"
  by (simp add: detect_edge_vertex_collisions_def Let_def sorted_compare_impacts_by_time
      set_std_sort length_std_sort)

theorem ev_impacts_sorted_witness:
  "ev_impacts (detect_edge_vertex_collisions example_detect (\<lambda>ev e'. 0) (\<lambda>ees m. 0) example_state)
     = [\<lparr>time = 1 / 4, edge_index = 0, alpha = 1 / 3, vertex_index = 2\<rparr>,
        \<lparr>time = 1 / 2, edge_index = 0, alpha = 1 / 4, vertex_index = 3\<rparr>,
        \<lparr>time = 1 / 2, edge_index = 1, alpha = 1 / 2, vertex_index = 0\<rparr>]
   \<and> sorted_wrt time_then_indices
        [\<lparr>time = 1 / 4, edge_index = 0, alpha = 1 / 3, vertex_index = 2\<rparr>,
         \<lparr>time = 1 / 2, edge_index = 0, alpha = 1 / 4, vertex_index = 3\<rparr>,
         \<lparr>time = 1 / 2, edge_index = 1, alpha = 1 / 2, vertex_index = 0\<rparr>]"
  using ev_impacts_sorted [of example_detect "\<lambda>ev e'. 0" "\<lambda>ees m. 0" example_state]
  by (simp only: detect_example) simp

lemma earliest_from_in: "earliest_from ees b js \<in> set (b # js)"
  by (induction js arbitrary: b) (auto split: if_splits)

lemma earliest_from_le:
  "j \<in> set (b # js) \<Longrightarrow> time (ees ! earliest_from ees b js) \<le> time (ees ! j)"
proof (induction js arbitrary: b j)
  case Nil
  then show ?case by simp
next
  case (Cons i js)
  let ?b = "if time (ees ! i) < time (ees ! b) then i else b"
  have b: "time (ees ! earliest_from ees ?b js) \<le> time (ees ! ?b)"
    using Cons.IH [where b = ?b and j = ?b] by simp
  show ?case
  proof (cases "j \<in> set js")
    case True
    then show ?thesis using Cons.IH [where b = ?b and j = j] by simp
  next
    case False
    with Cons.prems have "j = b \<or> j = i" by auto
    then have "time (ees ! ?b) \<le> time (ees ! j)" by auto
    with b show ?thesis by simp
  qed
qed

lemma earliest_impact_none:
  "(earliest_impact ees e = - 1) = (\<forall>imp \<in> set ees. \<not> involves e imp)"
proof -
  have "(filter (\<lambda>i. involves e (ees ! i)) [0..<length ees] = [])
      = (\<forall>imp \<in> set ees. \<not> involves e imp)"
    unfolding filter_empty_conv using nth_mem [of _ ees] by (auto simp: in_set_conv_nth)
  then show ?thesis
    by (auto simp: earliest_impact_def split: list.splits)
qed

lemma earliest_impact_some:
  assumes "0 \<le> earliest_impact ees e"
  shows "nat (earliest_impact ees e) < length ees
       \<and> involves e (ees ! nat (earliest_impact ees e))
       \<and> (\<forall>j < length ees. involves e (ees ! j) \<longrightarrow>
            time (ees ! nat (earliest_impact ees e)) \<le> time (ees ! j))"
proof -
  let ?f = "filter (\<lambda>i. involves e (ees ! i)) [0..<length ees]"
  from assms obtain i js where f: "?f = i # js"
    by (auto simp: earliest_impact_def split: list.splits)
  then have k: "earliest_impact ees e = int (earliest_from ees i js)"
    by (simp add: earliest_impact_def)
  have "earliest_from ees i js \<in> set ?f" using earliest_from_in [of ees i js] f by simp
  then have a: "earliest_from ees i js < length ees" "involves e (ees ! earliest_from ees i js)"
    by auto
  have "time (ees ! earliest_from ees i js) \<le> time (ees ! j)"
    if "j < length ees" "involves e (ees ! j)" for j
  proof -
    from that have "j \<in> set ?f" by simp
    then have "j \<in> set (i # js)" by (simp only: f)
    then show ?thesis by (rule earliest_from_le)
  qed
  with a k show ?thesis by simp
qed

text \<open>
  C3: after \<open>State::detect_edge_vertex_collisions\<close> on a state whose impact map has
  one entry per edge, for every edge \<open>e\<close>: if \<open>edge_impact_map[e] >= 0\<close> then the
  record \<open>ee_impacts[edge_impact_map[e]]\<close> exists and has \<open>edge_a == e\<close> or
  \<open>edge_b == e\<close>, and \<open>edge_impact_map[e] = -1\<close> if and only if \<open>e\<close> appears in no
  edge-edge impact of the step.
\<close>

theorem edge_impact_map_invariant:
  assumes "length (edge_impact_map s) = length (edges s)"
  shows "\<forall>e < length (edges (detect_edge_vertex_collisions ccd_detect alpha_other num_pruned s)).
     (0 \<le> edge_impact_map (detect_edge_vertex_collisions ccd_detect alpha_other num_pruned s) ! e
        \<longrightarrow> nat (edge_impact_map (detect_edge_vertex_collisions ccd_detect alpha_other num_pruned s) ! e)
              < length (ee_impacts (detect_edge_vertex_collisions ccd_detect alpha_other num_pruned s))
          \<and> (edge_a
                (ee_impacts (detect_edge_vertex_collisions ccd_detect alpha_other num_pruned s)
                   ! nat (edge_impact_map
                       (detect_edge_vertex_collisions ccd_detect alpha_other num_pruned s) ! e)) = e
              \<or> edge_b
                (ee_impacts (detect_edge_vertex_collisions ccd_detect alpha_other num_pruned s)
                   ! nat (edge_impact_map
                       (detect_edge_vertex_collisions ccd_detect alpha_other num_pruned s) ! e)) = e))
     \<and> ((edge_impact_map (detect_edge_vertex_collisions ccd_detect alpha_other num_pruned s) ! e = - 1)
        = (\<forall>imp \<in> set (ee_impacts (detect_edge_vertex_collisions ccd_detect alpha_other num_pruned s)).
             edge_a imp \<noteq> e \<and> edge_b imp \<noteq> e))"
proof (intro allI impI)
  fix e
  let ?s' = "detect_edge_vertex_collisions ccd_detect alpha_other num_pruned s"
  assume "e < length (edges ?s')"
  then have e: "e < length (edge_impact_map s)"
    using assms by (simp add: detect_edge_vertex_collisions_def Let_def)
  have m: "edge_impact_map ?s' ! e = earliest_impact (ee_impacts ?s') e"
    using e by (simp add: detect_edge_vertex_collisions_def Let_def prune_impacts_def)
  show "(0 \<le> edge_impact_map ?s' ! e
        \<longrightarrow> nat (edge_impact_map ?s' ! e) < length (ee_impacts ?s')
          \<and> (edge_a (ee_impacts ?s' ! nat (edge_impact_map ?s' ! e)) = e
              \<or> edge_b (ee_impacts ?s' ! nat (edge_impact_map ?s' ! e)) = e))
     \<and> ((edge_impact_map ?s' ! e = - 1)
        = (\<forall>imp \<in> set (ee_impacts ?s'). edge_a imp \<noteq> e \<and> edge_b imp \<noteq> e))"
    unfolding m using earliest_impact_some [of "ee_impacts ?s'" e]
      earliest_impact_none [of "ee_impacts ?s'" e]
    by (simp add: involves_def)
qed


theorem edge_impact_map_invariant_witness:
  "length (edge_impact_map example_state) = length (edges example_state)
   \<and> edge_impact_map
       (detect_edge_vertex_collisions example_detect (\<lambda>ev e'. 0) (\<lambda>ees m. 0) example_state)
     = [0, 0, - 1]
   \<and> ((edge_impact_map
         (detect_edge_vertex_collisions example_detect (\<lambda>ev e'. 0) (\<lambda>ees m. 0) example_state)
         ! 2 = - 1)
      = (\<forall>imp \<in> set (ee_impacts
            (detect_edge_vertex_collisions example_detect (\<lambda>ev e'. 0) (\<lambda>ees m. 0)
               example_state)).
           edge_a imp \<noteq> 2 \<and> edge_b imp \<noteq> 2))"
proof -
  let ?s' = "detect_edge_vertex_collisions example_detect (\<lambda>ev e'. 0) (\<lambda>ees m. 0) example_state"
  have e: "2 < length (edges ?s')"
    by (simp add: detect_example example_state_lengths)
  from edge_impact_map_invariant [OF example_state_lengths(1), of example_detect "\<lambda>ev e'. 0"
      "\<lambda>ees m. 0"] e
  have "(edge_impact_map ?s' ! 2 = - 1)
      = (\<forall>imp \<in> set (ee_impacts ?s'). edge_a imp \<noteq> 2 \<and> edge_b imp \<noteq> 2)"
    by blast
  moreover have "edge_impact_map ?s' = [0, 0, - 1]" by (simp add: detect_example)
  ultimately show ?thesis using example_state_lengths(1) by blast
qed

subsection \<open>The time of impact of a hit\<close>

lemma interval_root_finder_loop_hit_aux:
  assumes "interval_root_finder_loop f cp nr tol stack = Some y"
  shows "list_all (enclosed a b) stack \<longrightarrow> (\<forall>I. y = Inr (True, I) \<longrightarrow>
          enclosed a b I \<and> zero_in (f I) \<and> width I \<le> tol \<and> cp I = Inr True)"
proof (rule interval_root_finder_loop.raw_induct [where P = "\<lambda>f cp nr tol stack y.
     list_all (enclosed a b) stack \<longrightarrow> (\<forall>I. y = Inr (True, I) \<longrightarrow>
          enclosed a b I \<and> zero_in (f I) \<and> width I \<le> tol \<and> cp I = Inr True)", OF _ assms])
  fix loop f cp nr tol stack y
  assume IH: "\<And>f cp nr tol stack y. loop f cp nr tol stack = Some y \<Longrightarrow>
     list_all (enclosed a b) stack \<longrightarrow> (\<forall>I. y = Inr (True, I) \<longrightarrow>
          enclosed a b I \<and> zero_in (f I) \<and> width I \<le> tol \<and> cp I = Inr True)"
    and body: "(case stack of
        [] \<Rightarrow> Some (Inr (False, nr))
      | x # rest \<Rightarrow>
          if \<not> zero_in (f x) then loop f cp nr tol rest
          else if width x \<le> tol then
            (case cp x of
               Inl e \<Rightarrow> Some (Inl e)
             | Inr inside \<Rightarrow>
                 if inside then Some (Inr (True, x))
                 else loop f cp nr tol rest)
          else loop f cp nr tol (fst (bisect x) # snd (bisect x) # rest)) = Some y"
  show "list_all (enclosed a b) stack \<longrightarrow> (\<forall>I. y = Inr (True, I) \<longrightarrow>
          enclosed a b I \<and> zero_in (f I) \<and> width I \<le> tol \<and> cp I = Inr True)"
  proof (cases stack)
    case Nil
    with body show ?thesis by auto
  next
    case (Cons x rest)
    show ?thesis
    proof (intro impI allI)
      fix I
      assume wf: "list_all (enclosed a b) stack" and y: "y = Inr (True, I)"
      from wf Cons have wx: "enclosed a b x" and wr: "list_all (enclosed a b) rest" by simp_all
      have "enclosed a b (fst (bisect x))" "enclosed a b (snd (bisect x))"
        using wx by (simp_all add: enclosed_def bisect_def median_def)
      with wr have wb: "list_all (enclosed a b) (fst (bisect x) # snd (bisect x) # rest)" by simp
      show "enclosed a b I \<and> zero_in (f I) \<and> width I \<le> tol \<and> cp I = Inr True"
      proof (cases "zero_in (f x)")
        case False
        with body Cons have "loop f cp nr tol rest = Some y" by simp
        from IH [OF this] wr y show ?thesis by blast
      next
        case z: True
        show ?thesis
        proof (cases "width x \<le> tol")
          case False
          with body Cons z have "loop f cp nr tol (fst (bisect x) # snd (bisect x) # rest) = Some y"
            by simp
          from IH [OF this] wb y show ?thesis by blast
        next
          case w: True
          show ?thesis
          proof (cases "cp x")
            case (Inl e)
            with body Cons z w y show ?thesis by simp
          next
            case (Inr inside)
            show ?thesis
            proof (cases inside)
              case True
              with body Cons z w y Inr wx show ?thesis by auto
            next
              case False
              with body Cons z w Inr have "loop f cp nr tol rest = Some y" by simp
              from IH [OF this] wr y show ?thesis by blast
            qed
          qed
        qed
      qed
    qed
  qed
qed
lemma interval_root_finder_hit:
  assumes "interval_root_finder f cp x0 nr tol = Some (Inr (True, I))"
    and "enclosed a b x0"
  shows "enclosed a b I \<and> zero_in (f I) \<and> width I \<le> tol \<and> cp I = Inr True"
proof -
  from assms(1) have "interval_root_finder_loop f cp nr tol [x0] = Some (Inr (True, I))"
    by (simp only: interval_root_finder_def)
  from interval_root_finder_loop_hit_aux [OF this, of a b] assms(2) show ?thesis by simp
qed

lemma conservative_toi_hit:
  "(conservative_toi found = Some (Inr (True, toi)))
     = (\<exists>I. found = Some (Inr (True, I)) \<and> toi = lower I)"
  by (auto simp: conservative_toi_def split: option.splits sum.splits prod.splits)

lemma toi_in_domain:
  assumes "conservative_toi (interval_root_finder f cp \<lparr>lower = 0, upper = e\<rparr> nr tol)
             = Some (Inr (True, toi))"
    and "0 \<le> e" and "e \<le> 1"
  shows "(\<exists>I. interval_root_finder f cp \<lparr>lower = 0, upper = e\<rparr> nr tol = Some (Inr (True, I))
            \<and> toi = lower I)
         \<and> 0 \<le> toi \<and> toi \<le> 1"
proof -
  from assms(1) obtain I where
    I: "interval_root_finder f cp \<lparr>lower = 0, upper = e\<rparr> nr tol = Some (Inr (True, I))"
    and t: "toi = lower I"
    unfolding conservative_toi_hit by blast
  have "enclosed 0 e \<lparr>lower = 0, upper = e\<rparr>" using assms(2) by (simp add: enclosed_def)
  from interval_root_finder_hit [OF I this] have "enclosed 0 e I" by simp
  then have "0 \<le> toi \<and> toi \<le> 1" using t assms(3) by (simp add: enclosed_def)
  with I t show ?thesis by blast
qed

text \<open>
  With a positive tolerance the search of the root finder ends: every bisection halves
  the width, and an interval of width at most \<open>tol\<close> is returned or discarded.
\<close>

lemma width_bisect:
  "width (fst (bisect x)) = width x / 2" "width (snd (bisect x)) = width x / 2"
  by (simp_all add: width_def bisect_def median_def field_simps)

lemma interval_root_finder_loop_returns:
  assumes "list_all2 (\<lambda>x n. width x \<le> tol * 2 ^ n) stack ns"
  shows "\<exists>y. interval_root_finder_loop f cp nr tol stack = Some y"
  using assms
proof (induction "sum_list (map (\<lambda>n. 2 ^ (n + 1) - (1::nat)) ns)" arbitrary: stack ns
    rule: less_induct)
  case less
  show ?case
  proof (cases stack)
    case Nil
    then show ?thesis by (subst interval_root_finder_loop.simps) simp
  next
    case (Cons x rest)
    with less.prems obtain n ns' where ns: "ns = n # ns'"
      and wx: "width x \<le> tol * 2 ^ n"
      and wr: "list_all2 (\<lambda>x n. width x \<le> tol * 2 ^ n) rest ns'"
      by (auto simp: list_all2_Cons1)
    have pw: "(1::nat) \<le> 2 ^ k" for k by simp
    have "(1::nat) \<le> 2 * q - 1" if "1 \<le> q" for q using that by arith
    from this [OF pw [of n]] have pos: "(1::nat) \<le> 2 ^ (n + 1) - 1" by simp
    have smaller: "sum_list (map (\<lambda>n. 2 ^ (n + 1) - (1::nat)) ns')
        < sum_list (map (\<lambda>n. 2 ^ (n + 1) - (1::nat)) ns)"
      using pos by (simp add: ns)
    from less.hyps [OF smaller wr]
    obtain y where rest: "interval_root_finder_loop f cp nr tol rest = Some y" by blast
    show ?thesis
    proof (cases "\<not> zero_in (f x) \<or> width x \<le> tol")
      case True
      then show ?thesis
        using rest by (subst interval_root_finder_loop.simps)
          (auto simp: Cons split: sum.splits)
    next
      case False
      then have z: "zero_in (f x)" and w: "\<not> width x \<le> tol" by simp_all
      from w wx have "n \<noteq> 0" by (cases n) auto
      then obtain m where n: "n = Suc m" by (cases n) auto
      from wx n have half: "width x / 2 \<le> tol * 2 ^ m" by simp
      let ?stack = "fst (bisect x) # snd (bisect x) # rest"
      have all: "list_all2 (\<lambda>x n. width x \<le> tol * 2 ^ n) ?stack (m # m # ns')"
        using half wr by (simp add: width_bisect)
      have "2 * (2 * q - (1::nat)) < 2 * (2 * q) - 1" if "1 \<le> q" for q
        using that by arith
      from this [OF pw [of m]]
      have "2 * (2 ^ (m + 1) - (1::nat)) < 2 ^ (Suc m + 1) - 1" by simp
      then have "sum_list (map (\<lambda>n. 2 ^ (n + 1) - (1::nat)) (m # m # ns'))
          < sum_list (map (\<lambda>n. 2 ^ (n + 1) - (1::nat)) ns)"
        by (simp add: ns n)
      from less.hyps [OF this all]
      obtain y' where "interval_root_finder_loop f cp nr tol ?stack = Some y'" by blast
      then show ?thesis
        using z w by (subst interval_root_finder_loop.simps) (simp add: Cons)
    qed
  qed
qed

lemma interval_root_finder_returns:
  assumes "0 < tol"
  shows "\<exists>y. interval_root_finder f cp x0 nr tol = Some y"
proof -
  from real_arch_pow [of 2 "width x0 / tol"] obtain n where "width x0 / tol < 2 ^ n" by auto
  with assms have "width x0 \<le> tol * 2 ^ n" by (simp add: field_simps)
  then have "list_all2 (\<lambda>x n. width x \<le> tol * 2 ^ n) [x0] [n]" by simp
  from interval_root_finder_loop_returns [OF this] show ?thesis
    by (simp add: interval_root_finder_def)
qed

lemma compute_edge_vertex_time_of_impact_returns:
  "\<exists>y. compute_edge_vertex_time_of_impact vp psd ipas nr = Some y"
proof -
  have "(0::real) < 1 / 10 ^ 8" by simp
  from interval_root_finder_returns [OF this]
  obtain y where "interval_root_finder (ev_distance vp psd) (is_point_along_edge vp ipas)
      \<lparr>lower = 0, upper = 1\<rparr> nr (1 / 10 ^ 8) = Some y"
    by blast
  then show ?thesis
    by (simp add: compute_edge_vertex_time_of_impact_def conservative_toi_def
        split: sum.splits prod.splits)
qed

text \<open>
  C1: for every narrow-phase time-of-impact query (edge-vertex, edge-edge and
  face-vertex), whenever the function reports a hit, the returned time of impact is the
  lower endpoint of the interval enclosure that the root finder produced, and it lies in
  \<open>[0, 1]\<close>: the search domain is \<open>[0, 1]\<close>, or \<open>[0, earliest_toi]\<close> with
  \<open>0 <= earliest_toi <= 1\<close>. (The edge-edge function of the first file never reports
  a hit, see below; the edge-edge query here is the one of the second file.)
\<close>

theorem toi_is_lower_endpoint:
  "(compute_edge_vertex_time_of_impact vp_a psd_a ipas_a nr = Some (Inr (True, toi)) \<longrightarrow>
      (\<exists>I. interval_root_finder (ev_distance vp_a psd_a) (is_point_along_edge vp_a ipas_a)
              \<lparr>lower = 0, upper = 1\<rparr> nr (1 / 10 ^ 8) = Some (Inr (True, I))
            \<and> toi = lower I)
      \<and> 0 \<le> toi \<and> toi \<le> 1)
   \<and> (compute_face_vertex_time_of_impact vp_b tn_b ppsd_b ipit_b nr tol = Some (Inr (True, toi)) \<longrightarrow>
      (\<exists>I. interval_root_finder (fv_distance vp_b tn_b ppsd_b) (is_point_inside_triangle vp_b ipit_b)
              \<lparr>lower = 0, upper = 1\<rparr> nr tol = Some (Inr (True, I))
            \<and> toi = lower I)
      \<and> 0 \<le> toi \<and> toi \<le> 1)
   \<and> (0 \<le> earliest_toi \<and> earliest_toi \<le> 1 \<longrightarrow>
      (compute_edge_vertex_time_of_impact_redon vp_c psd_c ipas_c nr earliest_toi tol
         = Some (Inr (True, toi)) \<longrightarrow>
        (\<exists>I. interval_root_finder (ev_distance vp_c psd_c) (is_point_along_edge vp_c ipas_c)
                \<lparr>lower = 0, upper = earliest_toi\<rparr> nr tol = Some (Inr (True, I))
              \<and> toi = lower I)
        \<and> 0 \<le> toi \<and> toi \<le> 1)
      \<and> (compute_edge_edge_time_of_impact_redon vp_d llsd_d aei_d nr earliest_toi tol
         = Some (Inr (True, toi)) \<longrightarrow>
        (\<exists>I. interval_root_finder (ee_distance vp_d llsd_d)
                (is_intersection_inside_edges_redon vp_d aei_d)
                \<lparr>lower = 0, upper = earliest_toi\<rparr> nr tol = Some (Inr (True, I))
              \<and> toi = lower I)
        \<and> 0 \<le> toi \<and> toi \<le> 1)
      \<and> (compute_face_vertex_time_of_impact_redon vp_e ppsd_e ipit_e nr earliest_toi tol
         = Some (Inr (True, toi)) \<longrightarrow>
        (\<exists>I. interval_root_finder (fv_distance_redon vp_e ppsd_e)
                (is_point_inside_triangle vp_e ipit_e)
                \<lparr>lower = 0, upper = earliest_toi\<rparr> nr tol = Some (Inr (True, I))
              \<and> toi = lower I)
        \<and> 0 \<le> toi \<and> toi \<le> 1))"
proof -
  have unit: "(0::real) \<le> 1" "(1::real) \<le> 1" by simp_all
  have ev: "compute_edge_vertex_time_of_impact vp_a psd_a ipas_a nr = Some (Inr (True, toi)) \<longrightarrow>
      (\<exists>I. interval_root_finder (ev_distance vp_a psd_a) (is_point_along_edge vp_a ipas_a)
              \<lparr>lower = 0, upper = 1\<rparr> nr (1 / 10 ^ 8) = Some (Inr (True, I))
            \<and> toi = lower I)
      \<and> 0 \<le> toi \<and> toi \<le> 1"
    unfolding compute_edge_vertex_time_of_impact_def
    by (rule impI) (rule toi_in_domain [OF _ unit])
  have fv: "compute_face_vertex_time_of_impact vp_b tn_b ppsd_b ipit_b nr tol = Some (Inr (True, toi)) \<longrightarrow>
      (\<exists>I. interval_root_finder (fv_distance vp_b tn_b ppsd_b) (is_point_inside_triangle vp_b ipit_b)
              \<lparr>lower = 0, upper = 1\<rparr> nr tol = Some (Inr (True, I))
            \<and> toi = lower I)
      \<and> 0 \<le> toi \<and> toi \<le> 1"
    unfolding compute_face_vertex_time_of_impact_def
    by (rule impI) (rule toi_in_domain [OF _ unit])
  have redon: "(compute_edge_vertex_time_of_impact_redon vp_c psd_c ipas_c nr earliest_toi tol
         = Some (Inr (True, toi)) \<longrightarrow>
        (\<exists>I. interval_root_finder (ev_distance vp_c psd_c) (is_point_along_edge vp_c ipas_c)
                \<lparr>lower = 0, upper = earliest_toi\<rparr> nr tol = Some (Inr (True, I))
              \<and> toi = lower I)
        \<and> 0 \<le> toi \<and> toi \<le> 1)
      \<and> (compute_edge_edge_time_of_impact_redon vp_d llsd_d aei_d nr earliest_toi tol
         = Some (Inr (True, toi)) \<longrightarrow>
        (\<exists>I. interval_root_finder (ee_distance vp_d llsd_d)
                (is_intersection_inside_edges_redon vp_d aei_d)
                \<lparr>lower = 0, upper = earliest_toi\<rparr> nr tol = Some (Inr (True, I))
              \<and> toi = lower I)
        \<and> 0 \<le> toi \<and> toi \<le> 1)
      \<and> (compute_face_vertex_time_of_impact_redon vp_e ppsd_e ipit_e nr earliest_toi tol
         = Some (Inr (True, toi)) \<longrightarrow>
        (\<exists>I. interval_root_finder (fv_distance_redon vp_e ppsd_e)
                (is_point_inside_triangle vp_e ipit_e)
                \<lparr>lower = 0, upper = earliest_toi\<rparr> nr tol = Some (Inr (True, I))
              \<and> toi = lower I)
        \<and> 0 \<le> toi \<and> toi \<le> 1)"
    if e0: "0 \<le> earliest_toi" and e1: "earliest_toi \<le> 1"
    unfolding compute_edge_vertex_time_of_impact_redon_def
      compute_edge_edge_time_of_impact_redon_def compute_face_vertex_time_of_impact_redon_def
    by (intro conjI; rule impI; rule toi_in_domain [OF _ e0 e1])
  show ?thesis
    by (rule conjI [OF ev], rule conjI [OF fv], rule impI, erule conjE, erule (1) redon)
qed

lemmas example_defs = example_positions3_def example_positions4_def example_distance3_def
  example_distance4_def example_normal_def conservative_toi_def ev_distance_def ee_distance_def
  fv_distance_def fv_distance_redon_def is_point_along_edge_def is_point_inside_triangle_def
  is_intersection_inside_edges_redon_def interval_root_finder_def
  interval_root_finder_loop.simps zero_in_def width_def bisect_def median_def interval_sub_def

theorem toi_is_lower_endpoint_witness:
  "compute_edge_vertex_time_of_impact example_positions3 example_distance3 (\<lambda>v e0 e1. True)
       \<lparr>lower = 0, upper = 0\<rparr>
     = Some (Inr (True, 33554431 / 134217728))
   \<and> (0::real) \<le> 33554431 / 134217728 \<and> (33554431 / 134217728 :: real) \<le> 1
   \<and> compute_face_vertex_time_of_impact example_positions4 example_normal example_distance3
       (\<lambda>v f0 f1 f2. True) \<lparr>lower = 0, upper = 0\<rparr> (1 / 8)
     = Some (Inr (True, 1 / 8))
   \<and> compute_edge_vertex_time_of_impact_redon example_positions3 example_distance3
       (\<lambda>v e0 e1. True) \<lparr>lower = 0, upper = 0\<rparr> (1 / 2) (1 / 8)
     = Some (Inr (True, 1 / 8))
   \<and> compute_edge_edge_time_of_impact_redon example_positions4 example_distance4
       (\<lambda>a0 a1 b0 b1. True) \<lparr>lower = 0, upper = 0\<rparr> (1 / 2) (1 / 8)
     = Some (Inr (True, 1 / 8))
   \<and> compute_face_vertex_time_of_impact_redon example_positions4 example_distance4
       (\<lambda>v f0 f1 f2. True) \<lparr>lower = 0, upper = 0\<rparr> (1 / 2) (1 / 8)
     = Some (Inr (True, 1 / 8))
   \<and> (\<exists>I. interval_root_finder (ev_distance example_positions3 example_distance3)
             (is_point_along_edge example_positions3 (\<lambda>v e0 e1. True))
             \<lparr>lower = 0, upper = 1 / 2\<rparr> \<lparr>lower = 0, upper = 0\<rparr> (1 / 8) = Some (Inr (True, I))
           \<and> 1 / 8 = lower I)"
proof -
  have a: "compute_edge_vertex_time_of_impact example_positions3 example_distance3
      (\<lambda>v e0 e1. True) \<lparr>lower = 0, upper = 0\<rparr> = Some (Inr (True, 33554431 / 134217728))"
    by (simp add: compute_edge_vertex_time_of_impact_def example_defs)
  have b: "compute_face_vertex_time_of_impact example_positions4 example_normal example_distance3
       (\<lambda>v f0 f1 f2. True) \<lparr>lower = 0, upper = 0\<rparr> (1 / 8) = Some (Inr (True, 1 / 8))"
    by (simp add: compute_face_vertex_time_of_impact_def example_defs)
  have c: "compute_edge_vertex_time_of_impact_redon example_positions3 example_distance3
       (\<lambda>v e0 e1. True) \<lparr>lower = 0, upper = 0\<rparr> (1 / 2) (1 / 8) = Some (Inr (True, 1 / 8))"
    by (simp add: compute_edge_vertex_time_of_impact_redon_def example_defs)
  have d: "compute_edge_edge_time_of_impact_redon example_positions4 example_distance4
       (\<lambda>a0 a1 b0 b1. True) \<lparr>lower = 0, upper = 0\<rparr> (1 / 2) (1 / 8) = Some (Inr (True, 1 / 8))"
    by (simp add: compute_edge_edge_time_of_impact_redon_def example_defs)
  have e: "compute_face_vertex_time_of_impact_redon example_positions4 example_distance4
       (\<lambda>v f0 f1 f2. True) \<lparr>lower = 0, upper = 0\<rparr> (1 / 2) (1 / 8) = Some (Inr (True, 1 / 8))"
    by (simp add: compute_face_vertex_time_of_impact_redon_def example_defs)
  have h: "(0::real) \<le> 1 / 2 \<and> (1 / 2 :: real) \<le> 1" by simp
  from toi_is_lower_endpoint [where vp_a = example_positions3 and psd_a = example_distance3
      and ipas_a = "\<lambda>v e0 e1. True" and nr = "\<lparr>lower = 0, upper = 0\<rparr>"
      and toi = "33554431 / 134217728", THEN conjunct1, rule_format, OF a]
  have r1: "(0::real) \<le> 33554431 / 134217728 \<and> (33554431 / 134217728 :: real) \<le> 1"
    by (rule conjunct2)
  from toi_is_lower_endpoint [where vp_c = example_positions3 and psd_c = example_distance3
      and ipas_c = "\<lambda>v e0 e1. True" and nr = "\<lparr>lower = 0, upper = 0\<rparr>"
      and toi = "1 / 8" and tol = "1 / 8" and earliest_toi = "1 / 2",
      THEN conjunct2, THEN conjunct2, rule_format, OF h, THEN conjunct1, rule_format, OF c]
  have r3: "\<exists>I. interval_root_finder (ev_distance example_positions3 example_distance3)
             (is_point_along_edge example_positions3 (\<lambda>v e0 e1. True))
             \<lparr>lower = 0, upper = 1 / 2\<rparr> \<lparr>lower = 0, upper = 0\<rparr> (1 / 8) = Some (Inr (True, I))
           \<and> 1 / 8 = lower I"
    by (rule conjunct1)
  from a b c d e r1 r3 show ?thesis by (intro conjI) (simp_all only:)
qed

subsection \<open>The inside predicate of two edges\<close>
















end
